theory Spec2Isabelle
  imports Main
begin

chapter \<open>Process execution and lifecycle control (libutil/processes.cc)\<close>

unbundle bit_operations_syntax

section \<open>Values of the C types\<close>

text \<open>
  \<open>int\<close> and \<open>pid_t\<close> values are modelled as HOL integers: the code adds, negates and
  masks them only in places where no overflow can occur for a process id or a wait status.
  The bitwise operations on \<open>int\<close> are those of two's complement.
\<close>

type_synonym pid_t = int
type_synonym uid_t = nat

subsection \<open>Formatting of numbers\<close>

text \<open>\<open>fmt("...%1%...", n)\<close> prints an integer in decimal.\<close>

definition digit :: "nat \<Rightarrow> char" where
  "digit d = ''0123456789'' ! d"

fun show_nat :: "nat \<Rightarrow> string" where
  "show_nat n =
     (if n < 10 then [digit n]
      else show_nat (n div 10) @ [digit (n mod 10)])"

declare show_nat.simps [simp del]

definition show_int :: "int \<Rightarrow> string" where
  "show_int i = (if i < 0 then CHR ''-'' # show_nat (nat (- i)) else show_nat (nat i))"

section \<open>The wait-status macros\<close>

text \<open>
  \<open>WIFEXITED\<close>, \<open>WEXITSTATUS\<close>, \<open>WIFSIGNALED\<close> and \<open>WTERMSIG\<close> come from the platform's
  \<^verbatim>\<open>sys/wait.h\<close>, not from the repository. They are given here with the encoding of
  Linux (glibc, \<open>bits/waitstatus.h\<close>):
  \<^verbatim>\<open>
  #define __WEXITSTATUS(status) (((status) & 0xff00) >> 8)
  #define __WTERMSIG(status)    ((status) & 0x7f)
  #define __WIFEXITED(status)   (__WTERMSIG(status) == 0)
  #define __WIFSIGNALED(status) (((signed char) (((status) & 0x7f) + 1) >> 1) > 0)
  #define __W_EXITCODE(ret, sig) ((ret) << 8 | (sig))
  #define __W_STOPCODE(sig)     ((sig) << 8 | 0x7f)
  #define __W_CONTINUED         0xffff
  #define __WCOREFLAG           0x80
  \<close>
\<close>

definition WEXITSTATUS :: "int \<Rightarrow> int" where
  "WEXITSTATUS status = drop_bit 8 (status AND 0xff00)"

definition WTERMSIG :: "int \<Rightarrow> int" where
  "WTERMSIG status = status AND 0x7f"

definition WIFEXITED :: "int \<Rightarrow> bool" where
  "WIFEXITED status \<longleftrightarrow> WTERMSIG status = 0"

text \<open>The cast to \<open>signed char\<close> keeps the low eight bits, read as two's complement.\<close>

definition signed_char :: "int \<Rightarrow> int" where
  "signed_char x = signed_take_bit 7 x"

definition WIFSIGNALED :: "int \<Rightarrow> bool" where
  "WIFSIGNALED status \<longleftrightarrow> drop_bit 1 (signed_char ((status AND 0x7f) + 1)) > 0"

definition W_EXITCODE :: "int \<Rightarrow> int \<Rightarrow> int" where
  "W_EXITCODE ret sig = push_bit 8 ret OR sig"

definition W_STOPCODE :: "int \<Rightarrow> int" where
  "W_STOPCODE sig = push_bit 8 sig OR 0x7f"

definition W_CONTINUED :: int where
  "W_CONTINUED = 0xffff"

definition WCOREFLAG :: int where
  "WCOREFLAG = 0x80"

section \<open>Build configuration\<close>

text \<open>
  The source selects code with the preprocessor: \<open>HAVE_STRSIGNAL\<close> in \<open>statusToString\<close>,
  \<open>__linux__\<close>, \<open>__APPLE__\<close> and \<open>__FreeBSD__\<close> in \<open>Pid::kill\<close>, \<open>killUser\<close> and
  \<open>startProcess\<close>. A build fixes them.
\<close>

datatype platform = Linux | Apple | FreeBSD | OtherPlatform

record build =
  HAVE_STRSIGNAL :: bool
  target :: platform

section \<open>Outcomes, errors and the operating system\<close>

text \<open>
  The values of \<open>errno\<close> that the code tests by name, and all the others.
\<close>

datatype errno_value = EPERM | ESRCH | EINTR | OtherErrno nat

text \<open>
  The objects that the code throws. \<open>SysError\<close> records \<open>errno\<close> at its construction and
  the formatted message, \<open>ExecError\<close> the wait status and the formatted message.
  \<open>StdException\<close> is any other exception derived from \<open>std::exception\<close>,
  \<open>NonStdException\<close> a thrown object that is not.
\<close>

datatype exn =
    SysError errno_value string
  | Error string
  | ExecError int string
  | Interrupted
  | StdException string
  | NonStdException

fun is_std_exception :: "exn \<Rightarrow> bool" where
  "is_std_exception NonStdException = False"
| "is_std_exception e = True"

text \<open>
  The ways in which the running process ends inside a call, so that the call returns to
  nobody: a failed \<open>assert\<close>, \<open>abort()\<close>, \<open>std::terminate()\<close>, \<open>exit(n)\<close> (exit handlers
  run), \<open>_exit(n)\<close> (they do not), a successful \<open>exec\<close>, and the use of a null pointer.
\<close>

datatype halt =
    AssertionFailed string
  | Aborted
  | Terminated
  | Exited int
  | QuickExited int
  | Execed string "string list"
  | NullDereference

datatype 'a outcome = Returns 'a | Throws exn | Halts halt

text \<open>What the process does to the outside, in order.\<close>

datatype event =
    Debug string
  | LogError errno_value string
  | Sys_kill pid_t int
  | Sys_kill_nonposix pid_t int
  | Sys_waitpid pid_t
  | CheckInterrupt
  | Sys_fork
  | Sys_clone int
  | Sys_mmap nat
  | Sys_munmap nat
  | Sys_setuid uid_t
  | Sys_setgid nat
  | Sys_setgroups_none
  | Sys_prctl_pdeathsig int
  | Sys_dup2_stdout
  | Sys_dup2_stdout_to_stderr
  | Sys_chdir string
  | Sys_execvp string "string list"
  | Sys_execv string "string list"
  | ReplaceEnv
  | RestoreProcessContext
  | MakeSimpleLogger
  | WriteStderr string
  | PipeCreate
  | CloseWriteSide
  | LoggerPause
  | LoggerResume
  | Drain

text \<open>
  The process sees the operating system through the results of its calls. A \<open>world\<close>
  holds the events so far, the variable \<open>errno\<close> and, for each kind of call, the results
  that the system will give, in order: for \<open>waitpid\<close> the value returned, the status
  stored and \<open>errno\<close> after the call; for \<open>kill\<close>, for \<open>fork\<close> and \<open>clone\<close>, and for the
  other system calls the value returned and \<open>errno\<close> after the call; for \<open>checkInterrupt\<close>
  whether it raises; for the insertions into \<open>std::cerr\<close> how many of them succeed before
  one throws; for the draining of the output stream what it returns or throws.
  A call whose list is empty does not return: the run is then \<open>None\<close>.
\<close>

record world =
  trace :: "event list"
  errno :: errno_value
  waitpid_replies :: "(pid_t \<times> int \<times> errno_value) list"
  kill_replies :: "(int \<times> errno_value) list"
  interrupt_replies :: "bool list"
  fork_replies :: "(pid_t \<times> errno_value) list"
  syscall_replies :: "(int \<times> errno_value) list"
  stderr_replies :: "nat list"
  drain_replies :: "string outcome list"

definition emit :: "event \<Rightarrow> world \<Rightarrow> world" where
  "emit e w = w\<lparr>trace := trace w @ [e]\<rparr>"

text \<open>A system call other than \<open>waitpid\<close>, \<open>kill\<close>, \<open>fork\<close> and \<open>clone\<close>.\<close>

definition syscall :: "event \<Rightarrow> world \<Rightarrow> (int \<times> world) option" where
  "syscall e w =
     (case syscall_replies w of
        [] \<Rightarrow> None
      | (ret, err) # rs \<Rightarrow> Some (ret, emit e (w\<lparr>syscall_replies := rs, errno := err\<rparr>)))"

definition sys_kill :: "event \<Rightarrow> world \<Rightarrow> (int \<times> world) option" where
  "sys_kill e w =
     (case kill_replies w of
        [] \<Rightarrow> None
      | (ret, err) # rs \<Rightarrow> Some (ret, emit e (w\<lparr>kill_replies := rs, errno := err\<rparr>)))"

text \<open>
  \<open>checkInterrupt\<close> (signals.hh) is not among the sources; whether a call of it raises
  \<open>Interrupted\<close> is an input of the run.
\<close>

definition checkInterrupt :: "world \<Rightarrow> (unit outcome \<times> world) option" where
  "checkInterrupt w =
     (case interrupt_replies w of
        [] \<Rightarrow> None
      | b # bs \<Rightarrow>
          Some (if b then Throws Interrupted else Returns (),
                emit CheckInterrupt (w\<lparr>interrupt_replies := bs\<rparr>)))"

section \<open>ProcessHandle: Pid\<close>

record Pid =
  pid :: pid_t
  separatePG :: bool
  killSignal :: int

definition SIGKILL :: int where
  "SIGKILL = 9"

text \<open>
  Modelled from the spec: the class declaration (processes.hh) is not among the sources.
  The spec's data model gives the member initialisers (empty is the sentinel -1, no
  separate process group, the kill signal terminates forcefully), and an empty handle is
  the one that owns nothing, which is what \<open>operator bool\<close> tests. \<open>Pid::Pid()\<close> itself
  has an empty body.
\<close>

definition Pid_default :: Pid where
  "Pid_default = \<lparr>pid = -1, separatePG = False, killSignal = SIGKILL\<rparr>"

definition Pid_of :: "pid_t \<Rightarrow> Pid" where
  "Pid_of p = Pid_default\<lparr>pid := p\<rparr>"

definition Pid_bool :: "Pid \<Rightarrow> bool" where
  "Pid_bool this \<longleftrightarrow> pid this \<noteq> -1"

text \<open>
  \<open>Pid::wait\<close>. The loop takes one result of \<open>waitpid\<close> per round; the recursion is on the
  list of results still to come.
\<close>

fun wait_loop ::
  "Pid \<Rightarrow> (pid_t \<times> int \<times> errno_value) list \<Rightarrow> world \<Rightarrow> (int outcome \<times> Pid \<times> world) option"
where
  "wait_loop this [] w = None"
| "wait_loop this ((res, status, err) # rs) w =
     (let w1 = emit (Sys_waitpid (pid this)) (w\<lparr>waitpid_replies := rs, errno := err\<rparr>) in
      if res = pid this then
        Some (Returns status, this\<lparr>pid := -1\<rparr>, w1)
      else if errno w1 \<noteq> EINTR then
        Some (Throws (SysError (errno w1)
                        (''cannot get exit status of PID '' @ show_int (pid this))),
              this, w1)
      else
        (case checkInterrupt w1 of
           None \<Rightarrow> None
         | Some (Returns u, w2) \<Rightarrow> wait_loop this rs w2
         | Some (Throws e, w2) \<Rightarrow> Some (Throws e, this, w2)
         | Some (Halts h, w2) \<Rightarrow> Some (Halts h, this, w2)))"

definition Pid_wait :: "Pid \<Rightarrow> world \<Rightarrow> (int outcome \<times> Pid \<times> world) option" where
  "Pid_wait this w =
     (if pid this = -1 then Some (Halts (AssertionFailed ''pid != -1''), this, w)
      else wait_loop this (waitpid_replies w) w)"

text \<open>
  \<open>Pid::kill\<close>. On FreeBSD and macOS a failed \<open>kill\<close> with \<open>EPERM\<close> is followed by a second
  \<open>kill(pid, 0)\<close>, and the error is logged only if that fails as well.
\<close>

definition logKillError :: "Pid \<Rightarrow> world \<Rightarrow> world" where
  "logKillError this w =
     emit (LogError (errno w) (''killing process '' @ show_int (pid this))) w"

definition kill_failed :: "build \<Rightarrow> Pid \<Rightarrow> world \<Rightarrow> world option" where
  "kill_failed b this w =
     (if target b = FreeBSD \<or> target b = Apple then
        (if errno w \<noteq> EPERM then Some (logKillError this w)
         else
           (case sys_kill (Sys_kill (pid this) 0) w of
              None \<Rightarrow> None
            | Some (ret2, w') \<Rightarrow>
                if ret2 \<noteq> 0 then Some (logKillError this w') else Some w'))
      else Some (logKillError this w))"

definition Pid_kill :: "build \<Rightarrow> Pid \<Rightarrow> world \<Rightarrow> (int outcome \<times> Pid \<times> world) option" where
  "Pid_kill b this w =
     (if pid this = -1 then Some (Halts (AssertionFailed ''pid != -1''), this, w)
      else
        (let w1 = emit (Debug (''killing process '' @ show_int (pid this))) w in
         case sys_kill (Sys_kill (if separatePG this then - pid this else pid this)
                          (killSignal this)) w1 of
           None \<Rightarrow> None
         | Some (ret, w2) \<Rightarrow>
             if ret \<noteq> 0 then
               (case kill_failed b this w2 of
                  None \<Rightarrow> None
                | Some w3 \<Rightarrow> Pid_wait this w3)
             else Pid_wait this w2))"

text \<open>\<open>Pid::~Pid\<close>, declared \<open>noexcept(false)\<close>: what \<open>kill\<close> throws leaves the destructor.\<close>

definition Pid_dtor :: "build \<Rightarrow> Pid \<Rightarrow> world \<Rightarrow> (unit outcome \<times> Pid \<times> world) option" where
  "Pid_dtor b this w =
     (if pid this \<noteq> -1 then
        (case Pid_kill b this w of
           None \<Rightarrow> None
         | Some (Returns status, this', w') \<Rightarrow> Some (Returns (), this', w')
         | Some (Throws e, this', w') \<Rightarrow> Some (Throws e, this', w')
         | Some (Halts h, this', w') \<Rightarrow> Some (Halts h, this', w'))
      else Some (Returns (), this, w))"

definition Pid_setSeparatePG :: "bool \<Rightarrow> Pid \<Rightarrow> Pid" where
  "Pid_setSeparatePG v this = this\<lparr>separatePG := v\<rparr>"

definition Pid_setKillSignal :: "int \<Rightarrow> Pid \<Rightarrow> Pid" where
  "Pid_setKillSignal signal this = this\<lparr>killSignal := signal\<rparr>"

definition Pid_release :: "Pid \<Rightarrow> pid_t \<times> Pid" where
  "Pid_release this = (let p = pid this in (p, this\<lparr>pid := -1\<rparr>))"

text \<open>
  The move constructor and the move assignment work on two handles that may be one and the
  same object, so they are given on a store of handles, with the handles named by their
  addresses. \<open>Pid_move other st\<close> is the new object together with the store in which
  \<open>other\<close> has been emptied.
\<close>

type_synonym store = "nat \<Rightarrow> Pid"

definition Pid_move :: "nat \<Rightarrow> store \<Rightarrow> Pid \<times> store" where
  "Pid_move other st =
     (\<lparr>pid = pid (st other), separatePG = separatePG (st other),
       killSignal = killSignal (st other)\<rparr>,
      st(other := (st other)\<lparr>pid := -1\<rparr>))"

text \<open>
  \<open>Pid::operator=(Pid &&)\<close>: the temporary takes \<open>other\<close>, the three members of \<open>*this\<close> are
  swapped with those of the temporary, and the temporary, now holding what \<open>*this\<close> held,
  is destroyed when the function returns. \<open>Pid_assign_swapped\<close> is the state reached after
  the three swaps: the store and the temporary.
\<close>

definition Pid_assign_swapped :: "nat \<Rightarrow> nat \<Rightarrow> store \<Rightarrow> store \<times> Pid" where
  "Pid_assign_swapped this other st =
     (let (tmp, st1) = Pid_move other st in
      (st1(this := \<lparr>pid = pid tmp, separatePG = separatePG tmp, killSignal = killSignal tmp\<rparr>),
       \<lparr>pid = pid (st1 this), separatePG = separatePG (st1 this),
         killSignal = killSignal (st1 this)\<rparr>))"

definition Pid_assign ::
  "build \<Rightarrow> nat \<Rightarrow> nat \<Rightarrow> store \<Rightarrow> world \<Rightarrow> (unit outcome \<times> store \<times> world) option"
where
  "Pid_assign b this other st w =
     (let (st2, tmp) = Pid_assign_swapped this other st in
      case Pid_dtor b tmp w of
        None \<Rightarrow> None
      | Some (r, tmp', w') \<Rightarrow> Some (r, st2, w'))"

section \<open>StatusDecoder: statusToString and statusOk\<close>

text \<open>
  \<open>strsignal\<close> is the C library's table of signal descriptions; it is a parameter.
\<close>

definition statusToString :: "build \<Rightarrow> (int \<Rightarrow> string) \<Rightarrow> int \<Rightarrow> string" where
  "statusToString b strsignal status =
     (if \<not> WIFEXITED status \<or> WEXITSTATUS status \<noteq> 0 then
        (if WIFEXITED status then
           ''failed with exit code '' @ show_int (WEXITSTATUS status)
         else if WIFSIGNALED status then
           (let sig = WTERMSIG status in
            if HAVE_STRSIGNAL b then
              ''failed due to signal '' @ show_int sig @ '' ('' @ strsignal sig @ '')''
            else
              ''failed due to signal '' @ show_int sig)
         else ''died abnormally'')
      else ''succeeded'')"

definition statusOk :: "int \<Rightarrow> bool" where
  "statusOk status \<longleftrightarrow> WIFEXITED status \<and> WEXITSTATUS status = 0"

text \<open>
  \<open>fmt\<close> puts its arguments in the places of \<open>%1%\<close>, \<open>%2%\<close>; the messages below are
  written out with the arguments in place. \<open>quoted\<close> puts a text between apostrophes.
\<close>

definition quoted :: "string \<Rightarrow> string" where
  "quoted s = [CHR 0x27] @ s @ [CHR 0x27]"

section \<open>ProcessSpawner: startProcess\<close>

record ProcessOptions =
  errorPrefix :: string
  dieWithParent :: bool
  runExitHandlers :: bool
  cloneFlags :: int

text \<open>
  Modelled from the spec: the member initialisers of \<open>ProcessOptions\<close> (processes.hh) are not
  among the sources. The spec has the fork path as the default, taken when no namespace
  flags are requested, so the flags are 0 by default; the other defaults are those of the
  upstream declaration. No theorem below depends on the defaults of \<open>errorPrefix\<close>,
  \<open>dieWithParent\<close> and \<open>runExitHandlers\<close>.
\<close>

definition ProcessOptions_default :: ProcessOptions where
  "ProcessOptions_default =
     \<lparr>errorPrefix = [], dieWithParent = True, runExitHandlers = False, cloneFlags = 0\<rparr>"

text \<open>Constants of the Linux headers used on the clone path.\<close>

definition CLONE_VM :: int where
  "CLONE_VM = 0x100"

definition SIGCHLD :: int where
  "SIGCHLD = 17"

type_synonym procedure = "world \<Rightarrow> (unit outcome \<times> world) option"

text \<open>
  The insertions \<open>std::cerr << options.errorPrefix << e.what() << "\n"\<close>: the first \<open>n\<close> of
  them succeed, where \<open>n\<close> is the next entry of \<open>stderr_replies\<close>; if \<open>n\<close> is less than three
  the next insertion throws, and the handler around the statement swallows that.
\<close>

definition cerr_insert :: "string list \<Rightarrow> world \<Rightarrow> world option" where
  "cerr_insert parts w =
     (case stderr_replies w of
        [] \<Rightarrow> None
      | n # ns \<Rightarrow>
          Some (fold (\<lambda>s. emit (WriteStderr s)) (take n parts) (w\<lparr>stderr_replies := ns\<rparr>)))"

definition wrapper_exit :: "ProcessOptions \<Rightarrow> world \<Rightarrow> (unit outcome \<times> world) option" where
  "wrapper_exit options w =
     Some (Halts (if runExitHandlers options then Exited 1 else QuickExited 1), w)"

text \<open>The body of the \<open>try\<close> block of the wrapper.\<close>

definition wrapper_try :: "build \<Rightarrow> ProcessOptions \<Rightarrow> procedure \<Rightarrow> procedure" where
  "wrapper_try b options fun w =
     (if target b = Linux \<and> dieWithParent options then
        (case syscall (Sys_prctl_pdeathsig SIGKILL) w of
           None \<Rightarrow> None
         | Some (ret, w') \<Rightarrow>
             if ret = -1 then Some (Throws (SysError (errno w') ''setting death signal''), w')
             else fun w')
      else fun w)"

text \<open>
  The wrapper that \<open>startProcess\<close> runs in the child. \<open>what\<close> gives the message
  \<open>e.what()\<close> of an exception (error.hh is not among the sources).
\<close>

definition wrapper :: "build \<Rightarrow> (exn \<Rightarrow> string) \<Rightarrow> ProcessOptions \<Rightarrow> procedure \<Rightarrow> procedure" where
  "wrapper b what options fun w =
     (case wrapper_try b options fun (emit MakeSimpleLogger w) of
        None \<Rightarrow> None
      | Some (Halts h, w1) \<Rightarrow> Some (Halts h, w1)
      | Some (Returns u, w1) \<Rightarrow> wrapper_exit options w1
      | Some (Throws e, w1) \<Rightarrow>
          if is_std_exception e then
            (case cerr_insert [errorPrefix options, what e, [CHR 0x0A]] w1 of
               None \<Rightarrow> None
             | Some w2 \<Rightarrow> wrapper_exit options w2)
          else wrapper_exit options w1)"

text \<open>
  \<open>doFork\<close>: \<open>fork\<close> returns the child's process id (or -1) in the parent and 0 in the
  child; the run that gets 0 is the child's.
\<close>

definition doFork :: "procedure \<Rightarrow> world \<Rightarrow> (pid_t outcome \<times> world) option" where
  "doFork fun w =
     (case fork_replies w of
        [] \<Rightarrow> None
      | (p, err) # rs \<Rightarrow>
          (let w1 = emit Sys_fork (w\<lparr>fork_replies := rs, errno := err\<rparr>) in
           if p \<noteq> 0 then Some (Returns p, w1)
           else
             (case fun w1 of
                None \<Rightarrow> None
              | Some (Returns u, w2) \<Rightarrow> Some (Halts Aborted, w2)
              | Some (Throws e, w2) \<Rightarrow> Some (Throws e, w2)
              | Some (Halts h, w2) \<Rightarrow> Some (Halts h, w2))))"

text \<open>
  \<open>childEntry\<close>, where the child starts on the clone path: when \<open>main\<close> returns, the entry
  function returns 1, which ends the child with that status.
\<close>

definition childEntry :: "procedure \<Rightarrow> world \<Rightarrow> (pid_t outcome \<times> world) option" where
  "childEntry main w =
     (case main w of
        None \<Rightarrow> None
      | Some (Returns u, w') \<Rightarrow> Some (Halts (QuickExited 1), w')
      | Some (Throws e, w') \<Rightarrow> Some (Throws e, w')
      | Some (Halts h, w') \<Rightarrow> Some (Halts h, w'))"

definition stackSize :: nat where
  "stackSize = 1 * 1024 * 1024"

text \<open>
  The clone path. \<open>clone\<close> takes its result from \<open>fork_replies\<close>; as for \<open>fork\<close>, the run
  that gets 0 is the child's, which starts in \<open>childEntry\<close>. The stack is unmapped when
  the block is left.
\<close>

definition startProcess_clone ::
  "build \<Rightarrow> procedure \<Rightarrow> ProcessOptions \<Rightarrow> world \<Rightarrow> (pid_t outcome \<times> world) option"
where
  "startProcess_clone b wrapper' options w =
     (if target b = Linux then
        (if cloneFlags options AND CLONE_VM \<noteq> 0 then
           Some (Halts (AssertionFailed ''!(options.cloneFlags & CLONE_VM)''), w)
         else
           (case syscall (Sys_mmap stackSize) w of
              None \<Rightarrow> None
            | Some (stack, w1) \<Rightarrow>
                if stack = -1 then Some (Throws (SysError (errno w1) ''allocating stack''), w1)
                else
                  (case fork_replies w1 of
                     [] \<Rightarrow> None
                   | (p, err) # rs \<Rightarrow>
                       (let w2 = emit (Sys_clone (cloneFlags options OR SIGCHLD))
                                   (w1\<lparr>fork_replies := rs, errno := err\<rparr>) in
                        if p = 0 then childEntry wrapper' w2
                        else Some (Returns p, emit (Sys_munmap stackSize) w2)))))
      else Some (Throws (Error ''clone flags are only supported on Linux''), w))"

definition startProcess ::
  "build \<Rightarrow> (exn \<Rightarrow> string) \<Rightarrow> procedure \<Rightarrow> ProcessOptions \<Rightarrow> world \<Rightarrow> (Pid outcome \<times> world) option"
where
  "startProcess b what fun options w =
     (case (if cloneFlags options \<noteq> 0 then
              startProcess_clone b (wrapper b what options fun) options w
            else doFork (wrapper b what options fun) w) of
        None \<Rightarrow> None
      | Some (Returns p, w') \<Rightarrow>
          if p = -1 then Some (Throws (SysError (errno w') ''unable to fork''), w')
          else Some (Returns (Pid_of p), w')
      | Some (Throws e, w') \<Rightarrow> Some (Throws e, w')
      | Some (Halts h, w') \<Rightarrow> Some (Halts h, w'))"

section \<open>UserProcessReaper: killUser\<close>

text \<open>
  The loop of the helper. On macOS the raw system call is used, with a third argument
  that keeps the signal from the caller itself.
\<close>

fun kill_all_loop ::
  "build \<Rightarrow> uid_t \<Rightarrow> (int \<times> errno_value) list \<Rightarrow> world \<Rightarrow> (unit outcome \<times> world) option"
where
  "kill_all_loop b uid [] w = None"
| "kill_all_loop b uid ((ret, err) # rs) w =
     (let w1 = emit (if target b = Apple then Sys_kill_nonposix (-1) SIGKILL
                     else Sys_kill (-1) SIGKILL)
                 (w\<lparr>kill_replies := rs, errno := err\<rparr>) in
      if ret = 0 then Some (Returns (), w1)
      else if errno w1 = ESRCH \<or> errno w1 = EPERM then Some (Returns (), w1)
      else if errno w1 \<noteq> EINTR then
        Some (Throws (SysError (errno w1)
                        (''cannot kill processes for uid '' @ quoted (show_nat uid))), w1)
      else kill_all_loop b uid rs w1)"

text \<open>The procedure that \<open>killUser\<close> hands to \<open>startProcess\<close>.\<close>

definition killUser_child :: "build \<Rightarrow> uid_t \<Rightarrow> procedure" where
  "killUser_child b uid w =
     (case syscall (Sys_setuid uid) w of
        None \<Rightarrow> None
      | Some (ret, w1) \<Rightarrow>
          if ret = -1 then Some (Throws (SysError (errno w1) ''setting uid''), w1)
          else
            (case kill_all_loop b uid (kill_replies w1) w1 of
               None \<Rightarrow> None
             | Some (Returns u, w2) \<Rightarrow> Some (Halts (QuickExited 0), w2)
             | Some (Throws e, w2) \<Rightarrow> Some (Throws e, w2)
             | Some (Halts h, w2) \<Rightarrow> Some (Halts h, w2)))"

text \<open>
  A local \<open>Pid\<close> goes out of scope: its destructor runs, whether the block is left by a
  return or by an exception. An exception that leaves a destructor while another one is
  propagating ends the process (\<open>std::terminate\<close>).
\<close>

definition leave_Pid_scope ::
  "build \<Rightarrow> 'a outcome \<Rightarrow> Pid \<Rightarrow> world \<Rightarrow> ('a outcome \<times> world) option"
where
  "leave_Pid_scope b r p w =
     (case r of
        Halts h \<Rightarrow> Some (Halts h, w)
      | Returns v \<Rightarrow>
          (case Pid_dtor b p w of
             None \<Rightarrow> None
           | Some (Returns u, p', w') \<Rightarrow> Some (Returns v, w')
           | Some (Throws e, p', w') \<Rightarrow> Some (Throws e, w')
           | Some (Halts h, p', w') \<Rightarrow> Some (Halts h, w'))
      | Throws e \<Rightarrow>
          (case Pid_dtor b p w of
             None \<Rightarrow> None
           | Some (Returns u, p', w') \<Rightarrow> Some (Throws e, w')
           | Some (Throws e', p', w') \<Rightarrow> Some (Halts Terminated, w')
           | Some (Halts h, p', w') \<Rightarrow> Some (Halts h, w')))"

definition killUser ::
  "build \<Rightarrow> (exn \<Rightarrow> string) \<Rightarrow> (int \<Rightarrow> string) \<Rightarrow> uid_t \<Rightarrow> world \<Rightarrow> (unit outcome \<times> world) option"
where
  "killUser b what strsignal uid w =
     (let w1 = emit (Debug (''killing all processes running under uid '' @ quoted (show_nat uid))) w in
      if uid = 0 then Some (Halts (AssertionFailed ''uid != 0''), w1)
      else
        (case startProcess b what (killUser_child b uid) ProcessOptions_default w1 of
           None \<Rightarrow> None
         | Some (Halts h, w2) \<Rightarrow> Some (Halts h, w2)
         | Some (Throws e, w2) \<Rightarrow> Some (Throws e, w2)
         | Some (Returns p, w2) \<Rightarrow>
             (case Pid_wait p w2 of
                None \<Rightarrow> None
              | Some (Halts h, p', w3) \<Rightarrow> Some (Halts h, w3)
              | Some (Throws e, p', w3) \<Rightarrow> leave_Pid_scope b (Throws e) p' w3
              | Some (Returns status, p', w3) \<Rightarrow>
                  if status \<noteq> 0 then
                    leave_Pid_scope b
                      (Throws (Error (''cannot kill processes for uid '' @ quoted (show_nat uid)
                                      @ '': '' @ statusToString b strsignal status)))
                      p' w3
                  else leave_Pid_scope b (Returns ()) p' w3)))"

section \<open>ProgramRunner and RunningProgram\<close>

text \<open>
  The fields of \<open>RunOptions\<close> are those that the source reads. \<open>AutoCloseFD\<close> holds one end
  of the pipe or nothing.
\<close>

record RunOptions =
  program :: string
  searchPath :: bool
  args :: "string list"
  uid :: "uid_t option"
  gid :: "nat option"
  chdir :: "string option"
  environment :: "(string \<times> string) list option"
  captureStdout :: bool
  mergeStderrToStdout :: bool
  isInteractive :: bool

datatype pipe_end = ReadSide | WriteSide

type_synonym AutoCloseFD = "pipe_end option"

record RunningProgram =
  rp_program :: string
  rp_pid :: Pid
  stdoutSource :: "pipe_end option"
  stdout_ :: AutoCloseFD

text \<open>
  The constructor moves the handle in; the source exists over the descriptor only when
  there is one.
\<close>

definition RunningProgram_new :: "string \<Rightarrow> Pid \<Rightarrow> AutoCloseFD \<Rightarrow> RunningProgram" where
  "RunningProgram_new prog p out =
     \<lparr>rp_program = prog, rp_pid = p,
      stdoutSource = (if out \<noteq> None then out else None), stdout_ = out\<rparr>"

text \<open>
  \<open>RunningProgram::~RunningProgram\<close>. After the body the members are destroyed; the
  handle is empty then, so its destructor does nothing.
\<close>

definition RunningProgram_dtor ::
  "build \<Rightarrow> RunningProgram \<Rightarrow> world \<Rightarrow> (unit outcome \<times> RunningProgram \<times> world) option"
where
  "RunningProgram_dtor b this w =
     (if Pid_bool (rp_pid this) then
        Some (Halts (AssertionFailed ''destroying un-wait()ed running process''), this, w)
      else
        (case Pid_dtor b (rp_pid this) w of
           None \<Rightarrow> None
         | Some (r, p', w') \<Rightarrow> Some (r, this\<lparr>rp_pid := p'\<rparr>, w')))"

text \<open>
  \<open>RunningProgram::wait\<close>; \<open>uncaught\<close> is the value of \<open>std::uncaught_exceptions()\<close> at the
  call.
\<close>

definition RunningProgram_wait ::
  "build \<Rightarrow> (int \<Rightarrow> string) \<Rightarrow> nat \<Rightarrow> RunningProgram \<Rightarrow> world
     \<Rightarrow> (unit outcome \<times> RunningProgram \<times> world) option"
where
  "RunningProgram_wait b strsignal uncaught this w =
     (if uncaught = 0 then
        (case Pid_wait (rp_pid this) w of
           None \<Rightarrow> None
         | Some (Halts h, p', w') \<Rightarrow> Some (Halts h, this\<lparr>rp_pid := p'\<rparr>, w')
         | Some (Throws e, p', w') \<Rightarrow> Some (Throws e, this\<lparr>rp_pid := p'\<rparr>, w')
         | Some (Returns status, p', w') \<Rightarrow>
             if status \<noteq> 0 then
               Some (Throws (ExecError status
                       (''program '' @ quoted (rp_program this) @ '' ''
                        @ statusToString b strsignal status)),
                     this\<lparr>rp_pid := p'\<rparr>, w')
             else Some (Returns (), this\<lparr>rp_pid := p'\<rparr>, w'))
      else
        (case Pid_kill b (rp_pid this) w of
           None \<Rightarrow> None
         | Some (Halts h, p', w') \<Rightarrow> Some (Halts h, this\<lparr>rp_pid := p'\<rparr>, w')
         | Some (Throws e, p', w') \<Rightarrow> Some (Throws e, this\<lparr>rp_pid := p'\<rparr>, w')
         | Some (Returns status, p', w') \<Rightarrow>
             Some (Returns (), this\<lparr>rp_pid := p'\<rparr>,
                   emit (Debug (''killed subprocess '' @ rp_program this
                                @ '' during exception handling'')) w')))"

text \<open>
  A system call of the child's set-up: made when the option asks for it, and its failure
  thrown as a \<open>SysError\<close> with the given message.
\<close>

definition sys_or_throw :: "event \<Rightarrow> string \<Rightarrow> procedure \<Rightarrow> procedure" where
  "sys_or_throw e msg continue w =
     (case syscall e w of
        None \<Rightarrow> None
      | Some (ret, w') \<Rightarrow>
          if ret = -1 then Some (Throws (SysError (errno w') msg), w') else continue w')"

text \<open>
  The procedure that \<open>runProgram2\<close> hands to \<open>startProcess\<close>. An \<open>exec\<close> that succeeds does
  not return (its result in \<open>syscall_replies\<close> is then 0); whenever it returns, the
  procedure throws.
\<close>

definition runProgram2_exec :: "RunOptions \<Rightarrow> procedure" where
  "runProgram2_exec options w =
     (let argv = program options # args options;
          w1 = emit RestoreProcessContext w in
      case syscall (if searchPath options then Sys_execvp (program options) argv
                    else Sys_execv (program options) argv) w1 of
        None \<Rightarrow> None
      | Some (ret, w2) \<Rightarrow>
          if ret = 0 then Some (Halts (Execed (program options) argv), w2)
          else Some (Throws (SysError (errno w2) (''executing '' @ quoted (program options))), w2))"

definition runProgram2_child :: "RunOptions \<Rightarrow> procedure" where
  "runProgram2_child options w =
     ((if captureStdout options then sys_or_throw Sys_dup2_stdout ''dupping stdout'' else id)
      ((if mergeStderrToStdout options then
          sys_or_throw Sys_dup2_stdout_to_stderr ''cannot dup stdout into stderr''
        else id)
       ((case chdir options of
           None \<Rightarrow> id
         | Some dir \<Rightarrow> sys_or_throw (Sys_chdir dir) ''chdir failed'')
        ((case gid options of
            None \<Rightarrow> id
          | Some g \<Rightarrow> sys_or_throw (Sys_setgid g) ''setgid failed'')
         ((case gid options of
             None \<Rightarrow> id
           | Some g \<Rightarrow> sys_or_throw Sys_setgroups_none ''setgroups failed'')
          ((case uid options of
              None \<Rightarrow> id
            | Some u \<Rightarrow> sys_or_throw (Sys_setuid u) ''setuid failed'')
           (runProgram2_exec options)))))))
       (if environment options \<noteq> None then emit ReplaceEnv w else w)"

text \<open>
  \<open>runProgram2\<close>, the parent's side. The creation of the pipe (\<open>Pipe::create\<close>, not among
  the sources) is a system call that may fail. The logger is resumed when the function
  is left, however it is left. The local handle has been moved into the result and is
  empty when it is destroyed.
\<close>

definition runProgram2_spawn ::
  "build \<Rightarrow> (exn \<Rightarrow> string) \<Rightarrow> RunOptions \<Rightarrow> world \<Rightarrow> (RunningProgram outcome \<times> world) option"
where
  "runProgram2_spawn b what options w =
     (case startProcess b what (runProgram2_child options) ProcessOptions_default w of
        None \<Rightarrow> None
      | Some (Halts h, w1) \<Rightarrow> Some (Halts h, w1)
      | Some (Throws e, w1) \<Rightarrow> Some (Throws e, w1)
      | Some (Returns p, w1) \<Rightarrow>
          Some (Returns (RunningProgram_new (program options) p
                           (if captureStdout options then Some ReadSide else None)),
                emit CloseWriteSide w1))"

definition resumeLogger :: "bool \<Rightarrow> ('a outcome \<times> world) option \<Rightarrow> ('a outcome \<times> world) option" where
  "resumeLogger interactive r =
     (case r of
        None \<Rightarrow> None
      | Some (Halts h, w) \<Rightarrow> Some (Halts h, w)
      | Some (x, w) \<Rightarrow> Some (x, if interactive then emit LoggerResume w else w))"

definition runProgram2 ::
  "build \<Rightarrow> (exn \<Rightarrow> string) \<Rightarrow> RunOptions \<Rightarrow> world \<Rightarrow> (RunningProgram outcome \<times> world) option"
where
  "runProgram2 b what options w =
     (case checkInterrupt w of
        None \<Rightarrow> None
      | Some (Halts h, w1) \<Rightarrow> Some (Halts h, w1)
      | Some (Throws e, w1) \<Rightarrow> Some (Throws e, w1)
      | Some (Returns u, w1) \<Rightarrow>
          (case (if captureStdout options then syscall PipeCreate w1 else Some (0, w1)) of
             None \<Rightarrow> None
           | Some (ret, w2) \<Rightarrow>
               if ret \<noteq> 0 then Some (Throws (SysError (errno w2) ''creating pipe''), w2)
               else
                 resumeLogger (isInteractive options)
                   (runProgram2_spawn b what options
                      (if isInteractive options then emit LoggerPause w2 else w2))))"

text \<open>
  \<open>proc.getStdout()->drain()\<close>: the stream is read to its end, or the read throws. Without
  a source the pointer is null.
\<close>

definition drain :: "RunningProgram \<Rightarrow> world \<Rightarrow> (string outcome \<times> world) option" where
  "drain proc w =
     (case stdoutSource proc of
        None \<Rightarrow> Some (Halts NullDereference, w)
      | Some src \<Rightarrow>
          (case drain_replies w of
             [] \<Rightarrow> None
           | r # rs \<Rightarrow> Some (r, emit Drain (w\<lparr>drain_replies := rs\<rparr>))))"

text \<open>The handler \<open>catch (ExecError & e) { status = e.status; }\<close> and the return after it.\<close>

definition runProgram_catch ::
  "exn \<Rightarrow> string \<Rightarrow> world \<Rightarrow> ((int \<times> string) outcome \<times> world) option"
where
  "runProgram_catch e out w =
     (case e of
        ExecError status msg \<Rightarrow> Some (Returns (status, out), w)
      | _ \<Rightarrow> Some (Throws e, w))"

text \<open>
  The end of the \<open>try\<close> block while the exception \<open>e\<close> propagates: \<open>proc\<close> is destroyed. An
  exception out of that destructor would end the process.
\<close>

definition unwind_proc ::
  "build \<Rightarrow> exn \<Rightarrow> string \<Rightarrow> RunningProgram \<Rightarrow> world \<Rightarrow> ((int \<times> string) outcome \<times> world) option"
where
  "unwind_proc b e out proc w =
     (case RunningProgram_dtor b proc w of
        None \<Rightarrow> None
      | Some (Returns u, proc', w') \<Rightarrow> runProgram_catch e out w'
      | Some (Throws e', proc', w') \<Rightarrow> Some (Halts Terminated, w')
      | Some (Halts h, proc', w') \<Rightarrow> Some (Halts h, w'))"

text \<open>
  The pair-returning \<open>runProgram\<close>. \<open>_wait\<close> is destroyed first when the block is left, which
  runs \<open>proc.wait()\<close>, then \<open>proc\<close>. While the exception of \<open>drain\<close> propagates, one more
  exception is uncaught during \<open>proc.wait()\<close>, and an exception out of \<open>proc.wait()\<close> ends
  the process. \<open>uncaught\<close> is the value of \<open>std::uncaught_exceptions()\<close> at the call of
  \<open>runProgram\<close>.
\<close>

definition runProgram_pair ::
  "build \<Rightarrow> (exn \<Rightarrow> string) \<Rightarrow> (int \<Rightarrow> string) \<Rightarrow> nat \<Rightarrow> RunOptions \<Rightarrow> world
     \<Rightarrow> ((int \<times> string) outcome \<times> world) option"
where
  "runProgram_pair b what strsignal uncaught options w =
     (case runProgram2 b what (options\<lparr>captureStdout := True\<rparr>) w of
        None \<Rightarrow> None
      | Some (Halts h, w1) \<Rightarrow> Some (Halts h, w1)
      | Some (Throws e, w1) \<Rightarrow> runProgram_catch e [] w1
      | Some (Returns proc, w1) \<Rightarrow>
          (case drain proc w1 of
             None \<Rightarrow> None
           | Some (Halts h, w2) \<Rightarrow> Some (Halts h, w2)
           | Some (Returns out, w2) \<Rightarrow>
               (case RunningProgram_wait b strsignal uncaught proc w2 of
                  None \<Rightarrow> None
                | Some (Halts h, proc', w3) \<Rightarrow> Some (Halts h, w3)
                | Some (Throws e, proc', w3) \<Rightarrow> unwind_proc b e out proc' w3
                | Some (Returns u, proc', w3) \<Rightarrow>
                    (case RunningProgram_dtor b proc' w3 of
                       None \<Rightarrow> None
                     | Some (Returns u', proc'', w4) \<Rightarrow> Some (Returns (0, out), w4)
                     | Some (Throws e, proc'', w4) \<Rightarrow> runProgram_catch e out w4
                     | Some (Halts h, proc'', w4) \<Rightarrow> Some (Halts h, w4)))
           | Some (Throws e, w2) \<Rightarrow>
               (case RunningProgram_wait b strsignal (Suc uncaught) proc w2 of
                  None \<Rightarrow> None
                | Some (Halts h, proc', w3) \<Rightarrow> Some (Halts h, w3)
                | Some (Throws e', proc', w3) \<Rightarrow> Some (Halts Terminated, w3)
                | Some (Returns u, proc', w3) \<Rightarrow> unwind_proc b e [] proc' w3)))"

text \<open>
  The throwing \<open>runProgram\<close>. The options not named in its initialiser have the defaults of
  the declaration (processes.hh, not among the sources): none of them is set.
\<close>

definition runProgram ::
  "build \<Rightarrow> (exn \<Rightarrow> string) \<Rightarrow> (int \<Rightarrow> string) \<Rightarrow> nat \<Rightarrow> string \<Rightarrow> bool \<Rightarrow> string list \<Rightarrow> bool
     \<Rightarrow> world \<Rightarrow> (string outcome \<times> world) option"
where
  "runProgram b what strsignal uncaught prog search as interactive w =
     (case runProgram_pair b what strsignal uncaught
             \<lparr>program = prog, searchPath = search, args = as, uid = None, gid = None,
              chdir = None, environment = None, captureStdout = False,
              mergeStderrToStdout = False, isInteractive = interactive\<rparr> w of
        None \<Rightarrow> None
      | Some (Halts h, w') \<Rightarrow> Some (Halts h, w')
      | Some (Throws e, w') \<Rightarrow> Some (Throws e, w')
      | Some (Returns res, w') \<Rightarrow>
          if \<not> statusOk (fst res) then
            Some (Throws (ExecError (fst res)
                    (''program '' @ quoted prog @ '' '' @ statusToString b strsignal (fst res))),
                  w')
          else Some (Returns (snd res), w'))"

section \<open>Notions used in the statements\<close>

text \<open>
  A list of results of \<open>waitpid\<close> for the process \<open>p\<close> each of which is a failure by
  interruption: some value other than \<open>p\<close> is returned and \<open>errno\<close> is \<open>EINTR\<close>.
\<close>

definition all_interrupted :: "pid_t \<Rightarrow> (pid_t \<times> int \<times> errno_value) list \<Rightarrow> bool" where
  "all_interrupted p es = list_all (\<lambda>(res, status, err). res \<noteq> p \<and> err = EINTR) es"

text \<open>The events of \<open>n\<close> rounds of the loop of \<open>Pid::wait\<close> that end in a retry.\<close>

definition wait_retries :: "pid_t \<Rightarrow> nat \<Rightarrow> event list" where
  "wait_retries p n = concat (replicate n [Sys_waitpid p, CheckInterrupt])"

text \<open>A world in which nothing has happened yet and no call has a result.\<close>

definition quiet :: world where
  "quiet = \<lparr>trace = [], errno = OtherErrno 0, waitpid_replies = [], kill_replies = [],
            interrupt_replies = [], fork_replies = [], syscall_replies = [],
            stderr_replies = [], drain_replies = []\<rparr>"

text \<open>Concrete inputs for the examples: a Linux build, and a store with two owning handles.\<close>

definition linux :: build where
  "linux = \<lparr>HAVE_STRSIGNAL = True, target = Linux\<rparr>"

definition two_handles :: store where
  "two_handles = (\<lambda>a. Pid_default)(0 := Pid_of 100, 1 := Pid_of 200)"

text \<open>
  What is looked at after a move assignment between the handles 0 and 1: the outcome, the
  process ids that the two handles hold, and the events.
\<close>

definition assign_view ::
  "(unit outcome \<times> store \<times> world) option \<Rightarrow> (unit outcome \<times> pid_t \<times> pid_t \<times> event list) option"
where
  "assign_view r = map_option (\<lambda>(x, st, w). (x, pid (st 0), pid (st 1), trace w)) r"

text \<open>
  What is looked at after \<open>RunningProgram::wait\<close>: the outcome, the process id that the
  handle holds, and the events.
\<close>

definition wait_view ::
  "(unit outcome \<times> RunningProgram \<times> world) option \<Rightarrow> (unit outcome \<times> pid_t \<times> event list) option"
where
  "wait_view r = map_option (\<lambda>(x, this, w). (x, pid (rp_pid this), trace w)) r"

text \<open>
  More inputs for the examples: a table of signal descriptions, and a running program that
  owns the process 100 and has its output captured.
\<close>

definition describe :: "int \<Rightarrow> string" where
  "describe sig = ''Killed''"

definition running_false :: RunningProgram where
  "running_false = RunningProgram_new ''/bin/false'' (Pid_of 100) (Some ReadSide)"

text \<open>
  The wrapper of \<open>startProcess\<close> reaches the child procedure when the death signal need not
  be set or could be set. \<open>child_start\<close> is the world in which the procedure then starts.
\<close>

definition prctl_ok :: "build \<Rightarrow> ProcessOptions \<Rightarrow> world \<Rightarrow> bool" where
  "prctl_ok b options w \<longleftrightarrow>
     (target b = Linux \<and> dieWithParent options \<longrightarrow>
        (case syscall_replies w of [] \<Rightarrow> False | (ret, err) # rs \<Rightarrow> ret \<noteq> -1))"

definition child_start :: "build \<Rightarrow> ProcessOptions \<Rightarrow> world \<Rightarrow> world" where
  "child_start b options w =
     (let w0 = emit MakeSimpleLogger w in
      if target b = Linux \<and> dieWithParent options then
        (case syscall_replies w0 of
           [] \<Rightarrow> w0
         | (ret, err) # rs \<Rightarrow>
             emit (Sys_prctl_pdeathsig SIGKILL) (w0\<lparr>syscall_replies := rs, errno := err\<rparr>))
      else w0)"

text \<open>How the wrapper ends the child.\<close>

definition exit_1 :: "ProcessOptions \<Rightarrow> halt" where
  "exit_1 options = (if runExitHandlers options then Exited 1 else QuickExited 1)"



text \<open>
  Inputs for the examples of the wrapper: child procedures that return, throw a
  \<open>SysError\<close> and throw an object that is no \<open>std::exception\<close>; a \<open>what\<close> that gives the
  formatted message; options with a prefix.
\<close>

definition returning :: procedure where
  "returning w = Some (Returns (), w)"

definition throwing :: procedure where
  "throwing w = Some (Throws (SysError EPERM ''setting uid''), w)"

definition throwing_other :: procedure where
  "throwing_other w = Some (Throws NonStdException, w)"

fun message :: "exn \<Rightarrow> string" where
  "message (SysError err msg) = msg"
| "message (Error msg) = msg"
| "message (ExecError status msg) = msg"
| "message Interrupted = ''interrupted by the user''"
| "message (StdException msg) = msg"
| "message NonStdException = []"

definition prefixed :: ProcessOptions where
  "prefixed = ProcessOptions_default\<lparr>errorPrefix := ''error: ''\<rparr>"


text \<open>
  The events of \<open>Pid::kill\<close> before its wait, when the first \<open>kill\<close> returns \<open>kret\<close> with
  \<open>errno\<close> \<open>kerr\<close> and the second one, which only FreeBSD and macOS make and only after
  \<open>EPERM\<close>, returns \<open>pret\<close> with \<open>errno\<close> \<open>perr\<close>.
\<close>

definition kill_events :: "build \<Rightarrow> Pid \<Rightarrow> int \<Rightarrow> errno_value \<Rightarrow> int \<Rightarrow> errno_value \<Rightarrow> event list" where
  "kill_events b this kret kerr pret perr =
     [Debug (''killing process '' @ show_int (pid this)),
      Sys_kill (if separatePG this then - pid this else pid this) (killSignal this)]
     @ (if kret = 0 then []
        else if (target b = FreeBSD \<or> target b = Apple) \<and> kerr = EPERM then
          Sys_kill (pid this) 0
          # (if pret \<noteq> 0 then [LogError perr (''killing process '' @ show_int (pid this))]
             else [])
        else [LogError kerr (''killing process '' @ show_int (pid this))])"

text \<open>A FreeBSD build, for the examples.\<close>

definition freebsd :: build where
  "freebsd = \<lparr>HAVE_STRSIGNAL = True, target = FreeBSD\<rparr>"

text \<open>
  What is looked at after a run that has no object to hand back: the outcome, the events,
  and the results of \<open>kill\<close> that the run has not asked for.
\<close>

definition outcome_view ::
  "('a outcome \<times> world) option \<Rightarrow> ('a outcome \<times> event list \<times> (int \<times> errno_value) list) option"
where
  "outcome_view r = map_option (\<lambda>(x, w). (x, trace w, kill_replies w)) r"

chapter \<open>Properties\<close>

section \<open>The status decoder\<close>

lemma and_0x7f: "(s::int) AND 0x7f = s mod 128"
  using take_bit_eq_mask[of 7 s] by (simp add: take_bit_eq_mod mask_eq_exp_minus_1)

lemma WTERMSIG_mod: "WTERMSIG s = s mod 128"
  by (simp add: WTERMSIG_def and_0x7f)

lemma WIFEXITED_mod: "WIFEXITED s \<longleftrightarrow> s mod 128 = 0"
  by (simp add: WIFEXITED_def WTERMSIG_mod)

lemma WEXITSTATUS_div_mod: "WEXITSTATUS s = (s div 256) mod 256"
proof -
  have c: "(0xff00::int) = push_bit 8 (mask 8)"
    by (simp add: mask_eq_exp_minus_1 push_bit_eq_mult)
  have "drop_bit 8 (s AND push_bit 8 (mask 8)) = take_bit 8 (drop_bit 8 s)"
    by (rule bit_eqI) (auto simp add: bit_simps)
  also have "\<dots> = (s div 256) mod 256"
    by (simp add: take_bit_eq_mod drop_bit_eq_div)
  finally show ?thesis
    by (simp only: WEXITSTATUS_def c)
qed

lemma signed_char_shift: "signed_char x = (x + 128) mod 256 - 128"
  by (simp add: signed_char_def signed_take_bit_eq_take_bit_shift take_bit_eq_mod)

lemma WIFSIGNALED_mod: "WIFSIGNALED s \<longleftrightarrow> 1 \<le> s mod 128 \<and> s mod 128 \<le> 126"
proof -
  define m where "m = s mod 128"
  have r: "0 \<le> m" "m < 128" by (simp_all add: m_def)
  have "(0 < ((m + 1 + 128) mod 256 - 128) div 2) \<longleftrightarrow> 1 \<le> m \<and> m \<le> 126"
  proof (cases "m = 127")
    case True
    then show ?thesis by simp
  next
    case False
    with r have "(m + 1 + 128) mod 256 = m + 129" by simp
    with r False show ?thesis by (simp add: pos_imp_zdiv_pos_iff)
  qed
  then show ?thesis
    by (simp add: WIFSIGNALED_def and_0x7f signed_char_shift drop_bit_eq_div m_def)
qed

lemma push_bit_or_low:
  fixes r x :: int
  assumes "0 \<le> x" "x < 2 ^ k"
  shows "push_bit k r OR x = r * 2 ^ k + x"
proof -
  have t: "take_bit k x = x" using assms by (simp add: take_bit_int_eq_self)
  have "push_bit k r AND take_bit k x = 0"
    by (auto simp add: bit_eq_iff bit_simps)
  then have "push_bit k r AND x = 0" by (simp add: t)
  then have "push_bit k r OR x = push_bit k r + x" by (simp add: disjunctive_add_eq_or)
  then show ?thesis by (simp add: push_bit_eq_mult)
qed

lemma W_EXITCODE_plus: "0 \<le> sig \<Longrightarrow> sig < 256 \<Longrightarrow> W_EXITCODE ret sig = ret * 256 + sig"
  using push_bit_or_low [of sig 8 ret] by (simp add: W_EXITCODE_def)

lemma W_STOPCODE_plus: "W_STOPCODE sig = sig * 256 + 127"
  using push_bit_or_low [of 127 8 sig] by (simp add: W_STOPCODE_def)

lemma or_WCOREFLAG: "0 \<le> x \<Longrightarrow> x < 128 \<Longrightarrow> x OR WCOREFLAG = x + 128"
  using push_bit_or_low [of x 7 1] by (simp add: or.commute WCOREFLAG_def)

lemma exit_status_decodes:
  assumes "0 \<le> c" "c \<le> 255"
  shows "WIFEXITED (W_EXITCODE c 0)" "WEXITSTATUS (W_EXITCODE c 0) = c"
  using assms by (simp_all add: W_EXITCODE_plus WIFEXITED_mod WEXITSTATUS_div_mod)

lemma signal_status_decodes:
  assumes "1 \<le> sig" "sig \<le> 126"
  shows "\<not> WIFEXITED (W_EXITCODE 0 sig)" "WIFSIGNALED (W_EXITCODE 0 sig)"
    "WTERMSIG (W_EXITCODE 0 sig) = sig"
    "\<not> WIFEXITED (W_EXITCODE 0 sig OR WCOREFLAG)" "WIFSIGNALED (W_EXITCODE 0 sig OR WCOREFLAG)"
    "WTERMSIG (W_EXITCODE 0 sig OR WCOREFLAG) = sig"
  using assms by (simp_all add: W_EXITCODE_plus or_WCOREFLAG WIFEXITED_mod WIFSIGNALED_mod WTERMSIG_mod)

lemma stop_status_decodes:
  "\<not> WIFEXITED (W_STOPCODE sig)" "\<not> WIFSIGNALED (W_STOPCODE sig)"
  "\<not> WIFEXITED W_CONTINUED" "\<not> WIFSIGNALED W_CONTINUED"
proof -
  have "(sig * 256 + 127) mod 128 = (127 + 128 * (2 * sig)) mod 128"
    by (simp add: ac_simps)
  also have "\<dots> = 127 mod 128"
    by (rule mod_mult_self2)
  finally have "(sig * 256 + 127) mod 128 = 127" by simp
  then show "\<not> WIFEXITED (W_STOPCODE sig)" "\<not> WIFSIGNALED (W_STOPCODE sig)"
    by (simp_all add: W_STOPCODE_plus WIFEXITED_mod WIFSIGNALED_mod)
  show "\<not> WIFEXITED W_CONTINUED" "\<not> WIFSIGNALED W_CONTINUED"
    by (simp_all add: W_CONTINUED_def WIFEXITED_mod WIFSIGNALED_mod)
qed

text \<open>
  Claim C1. \<open>statusToString\<close> returns "succeeded" exactly for the statuses of a normal exit
  with code 0, "failed with exit code N" for a normal exit with any other code N,
  "failed due to signal S (description)" for a termination by signal S (without the
  description in a build that has no \<open>strsignal\<close>), and "died abnormally" for every other
  status; \<open>statusOk\<close> holds exactly for the normal exit with code 0. The exit code decoded
  from a status lies between 0 and 255, every such code \<open>c\<close> is decoded from the status
  \<open>W_EXITCODE c 0\<close>, every signal from 1 to 126 from \<open>W_EXITCODE 0 sig\<close> with or without the
  core flag, and the statuses of stopped and continued children are of the last shape.
\<close>

theorem statusToString_decodes:
  "(WIFEXITED st \<and> WEXITSTATUS st = 0 \<longrightarrow> statusToString b strsignal st = ''succeeded'') \<and>
   (WIFEXITED st \<and> WEXITSTATUS st \<noteq> 0 \<longrightarrow>
      statusToString b strsignal st = ''failed with exit code '' @ show_int (WEXITSTATUS st)) \<and>
   (\<not> WIFEXITED st \<and> WIFSIGNALED st \<longrightarrow>
      statusToString b strsignal st =
        ''failed due to signal '' @ show_int (WTERMSIG st)
        @ (if HAVE_STRSIGNAL b then '' ('' @ strsignal (WTERMSIG st) @ '')'' else [])) \<and>
   (\<not> WIFEXITED st \<and> \<not> WIFSIGNALED st \<longrightarrow> statusToString b strsignal st = ''died abnormally'') \<and>
   (statusToString b strsignal st = ''succeeded'' \<longleftrightarrow> WIFEXITED st \<and> WEXITSTATUS st = 0) \<and>
   (statusOk st \<longleftrightarrow> WIFEXITED st \<and> WEXITSTATUS st = 0) \<and>
   0 \<le> WEXITSTATUS st \<and> WEXITSTATUS st \<le> 255 \<and>
   (0 \<le> c \<and> c \<le> 255 \<longrightarrow> WIFEXITED (W_EXITCODE c 0) \<and> WEXITSTATUS (W_EXITCODE c 0) = c) \<and>
   (1 \<le> sig \<and> sig \<le> 126 \<longrightarrow>
      \<not> WIFEXITED (W_EXITCODE 0 sig) \<and> WIFSIGNALED (W_EXITCODE 0 sig) \<and>
      WTERMSIG (W_EXITCODE 0 sig) = sig \<and>
      \<not> WIFEXITED (W_EXITCODE 0 sig OR WCOREFLAG) \<and> WIFSIGNALED (W_EXITCODE 0 sig OR WCOREFLAG) \<and>
      WTERMSIG (W_EXITCODE 0 sig OR WCOREFLAG) = sig) \<and>
   \<not> WIFEXITED (W_STOPCODE sig) \<and> \<not> WIFSIGNALED (W_STOPCODE sig) \<and>
   \<not> WIFEXITED W_CONTINUED \<and> \<not> WIFSIGNALED W_CONTINUED"
proof -
  have a1: "WIFEXITED st \<and> WEXITSTATUS st = 0 \<longrightarrow> statusToString b strsignal st = ''succeeded''"
    by (simp add: statusToString_def)
  have a2: "WIFEXITED st \<and> WEXITSTATUS st \<noteq> 0 \<longrightarrow>
      statusToString b strsignal st = ''failed with exit code '' @ show_int (WEXITSTATUS st)"
    by (simp add: statusToString_def)
  have a3: "\<not> WIFEXITED st \<and> WIFSIGNALED st \<longrightarrow>
      statusToString b strsignal st =
        ''failed due to signal '' @ show_int (WTERMSIG st)
        @ (if HAVE_STRSIGNAL b then '' ('' @ strsignal (WTERMSIG st) @ '')'' else [])"
    by (simp add: statusToString_def Let_def)
  have a4: "\<not> WIFEXITED st \<and> \<not> WIFSIGNALED st \<longrightarrow>
      statusToString b strsignal st = ''died abnormally''"
    by (simp add: statusToString_def)
  have a5: "statusToString b strsignal st = ''succeeded'' \<longleftrightarrow>
      WIFEXITED st \<and> WEXITSTATUS st = 0"
    by (simp add: statusToString_def Let_def)
  have a6: "statusOk st \<longleftrightarrow> WIFEXITED st \<and> WEXITSTATUS st = 0"
    by (simp add: statusOk_def)
  have a7: "0 \<le> WEXITSTATUS st" "WEXITSTATUS st \<le> 255"
    by (simp_all add: WEXITSTATUS_div_mod)
  have a8: "0 \<le> c \<and> c \<le> 255 \<longrightarrow>
      WIFEXITED (W_EXITCODE c 0) \<and> WEXITSTATUS (W_EXITCODE c 0) = c"
    using exit_status_decodes [of c] by simp
  have a9: "1 \<le> sig \<and> sig \<le> 126 \<longrightarrow>
      \<not> WIFEXITED (W_EXITCODE 0 sig) \<and> WIFSIGNALED (W_EXITCODE 0 sig) \<and>
      WTERMSIG (W_EXITCODE 0 sig) = sig \<and>
      \<not> WIFEXITED (W_EXITCODE 0 sig OR WCOREFLAG) \<and> WIFSIGNALED (W_EXITCODE 0 sig OR WCOREFLAG) \<and>
      WTERMSIG (W_EXITCODE 0 sig OR WCOREFLAG) = sig"
    using signal_status_decodes [of sig] by simp
  show ?thesis
    by (intro conjI; fact a1 a2 a3 a4 a5 a6 a7 a8 a9 stop_status_decodes)
qed


theorem statusToString_decodes_witness:
  "statusToString \<lparr>HAVE_STRSIGNAL = True, target = Linux\<rparr> (\<lambda>s. ''Killed'') (W_EXITCODE 0 0)
     = ''succeeded'' \<and>
   statusToString \<lparr>HAVE_STRSIGNAL = True, target = Linux\<rparr> (\<lambda>s. ''Killed'') (W_EXITCODE 1 0)
     = ''failed with exit code 1'' \<and>
   statusToString \<lparr>HAVE_STRSIGNAL = True, target = Linux\<rparr> (\<lambda>s. ''Killed'') (W_EXITCODE 0 9)
     = ''failed due to signal 9 (Killed)'' \<and>
   statusToString \<lparr>HAVE_STRSIGNAL = False, target = Linux\<rparr> (\<lambda>s. ''Killed'') (W_EXITCODE 0 9)
     = ''failed due to signal 9'' \<and>
   statusToString \<lparr>HAVE_STRSIGNAL = True, target = Linux\<rparr> (\<lambda>s. ''Killed'') (W_STOPCODE 19)
     = ''died abnormally'' \<and>
   statusOk (W_EXITCODE 0 0) \<and> \<not> statusOk (W_EXITCODE 1 0) \<and> \<not> statusOk (W_EXITCODE 0 9)"
  using
    statusToString_decodes [where st = "W_EXITCODE 0 0" and c = 0 and sig = 9
      and b = "\<lparr>HAVE_STRSIGNAL = True, target = Linux\<rparr>" and strsignal = "\<lambda>s. ''Killed''"]
    statusToString_decodes [where st = "W_EXITCODE 1 0" and c = 1 and sig = 9
      and b = "\<lparr>HAVE_STRSIGNAL = True, target = Linux\<rparr>" and strsignal = "\<lambda>s. ''Killed''"]
    statusToString_decodes [where st = "W_EXITCODE 0 9" and c = 1 and sig = 9
      and b = "\<lparr>HAVE_STRSIGNAL = True, target = Linux\<rparr>" and strsignal = "\<lambda>s. ''Killed''"]
    statusToString_decodes [where st = "W_EXITCODE 0 9" and c = 1 and sig = 9
      and b = "\<lparr>HAVE_STRSIGNAL = False, target = Linux\<rparr>" and strsignal = "\<lambda>s. ''Killed''"]
    statusToString_decodes [where st = "W_STOPCODE 19" and c = 1 and sig = 19
      and b = "\<lparr>HAVE_STRSIGNAL = True, target = Linux\<rparr>" and strsignal = "\<lambda>s. ''Killed''"]
  by (simp add: show_int_def show_nat.simps digit_def)

section \<open>ProcessHandle: wait\<close>

lemma wait_retries_Suc: "wait_retries p (Suc n) = Sys_waitpid p # CheckInterrupt # wait_retries p n"
  by (simp add: wait_retries_def)

lemma wait_loop_retries:
  assumes "all_interrupted (pid this) es"
    and "interrupt_replies w = replicate (length es) False @ irest"
  shows "\<exists>w1. wait_loop this (es @ r # rest) w = wait_loop this (r # rest) w1
           \<and> trace w1 = trace w @ wait_retries (pid this) (length es)
           \<and> interrupt_replies w1 = irest"
  using assms
proof (induction es arbitrary: w)
  case Nil
  then show ?case by (intro exI [of _ w]) (simp add: wait_retries_def)
next
  case (Cons e es)
  obtain res st err where e: "e = (res, st, err)" by (cases e)
  from Cons.prems e have ne: "res \<noteq> pid this" and err: "err = EINTR"
    and rest: "all_interrupted (pid this) es"
    by (simp_all add: all_interrupted_def)
  let ?w1 = "emit (Sys_waitpid (pid this)) (w\<lparr>waitpid_replies := es @ r # rest, errno := err\<rparr>)"
  let ?w2 = "emit CheckInterrupt (?w1\<lparr>interrupt_replies := replicate (length es) False @ irest\<rparr>)"
  have ci: "checkInterrupt ?w1 = Some (Returns (), ?w2)"
    using Cons.prems(2) by (simp add: checkInterrupt_def emit_def)
  have step: "wait_loop this ((e # es) @ r # rest) w = wait_loop this (es @ r # rest) ?w2"
    using ne err ci by (simp add: e Let_def emit_def)
  have "interrupt_replies ?w2 = replicate (length es) False @ irest"
    by (simp add: emit_def)
  from Cons.IH [OF rest this] obtain w1 where
    w1: "wait_loop this (es @ r # rest) ?w2 = wait_loop this (r # rest) w1"
      "trace w1 = trace ?w2 @ wait_retries (pid this) (length es)"
      "interrupt_replies w1 = irest"
    by blast
  have "trace w1 = trace w @ wait_retries (pid this) (length (e # es))"
    using w1(2) by (simp add: emit_def wait_retries_Suc)
  with step w1 show ?case by metis
qed


lemma wait_loop_completes:
  assumes "all_interrupted (pid this) es"
    and "interrupt_replies w = replicate (length es) False @ irest"
  shows "\<exists>w'. wait_loop this (es @ (pid this, status, err) # rest) w
                 = Some (Returns status, this\<lparr>pid := -1\<rparr>, w')
           \<and> trace w' = trace w @ wait_retries (pid this) (length es) @ [Sys_waitpid (pid this)]
           \<and> waitpid_replies w' = rest \<and> interrupt_replies w' = irest"
proof -
  from wait_loop_retries [OF assms, of "(pid this, status, err)" rest] obtain w1 where
    w1: "wait_loop this (es @ (pid this, status, err) # rest) w
           = wait_loop this ((pid this, status, err) # rest) w1"
      "trace w1 = trace w @ wait_retries (pid this) (length es)"
      "interrupt_replies w1 = irest"
    by blast
  show ?thesis
    by (rule exI [of _ "emit (Sys_waitpid (pid this)) (w1\<lparr>waitpid_replies := rest, errno := err\<rparr>)"])
       (simp add: w1 emit_def)
qed

lemma wait_loop_fails:
  assumes "all_interrupted (pid this) es"
    and "interrupt_replies w = replicate (length es) False @ irest"
    and "res \<noteq> pid this" "err \<noteq> EINTR"
  shows "\<exists>w'. wait_loop this (es @ (res, status, err) # rest) w
                 = Some (Throws (SysError err (''cannot get exit status of PID ''
                                                @ show_int (pid this))), this, w')
           \<and> trace w' = trace w @ wait_retries (pid this) (length es) @ [Sys_waitpid (pid this)]
           \<and> waitpid_replies w' = rest \<and> interrupt_replies w' = irest"
proof -
  from wait_loop_retries [OF assms(1,2), of "(res, status, err)" rest] obtain w1 where
    w1: "wait_loop this (es @ (res, status, err) # rest) w
           = wait_loop this ((res, status, err) # rest) w1"
      "trace w1 = trace w @ wait_retries (pid this) (length es)"
      "interrupt_replies w1 = irest"
    by blast
  show ?thesis
    by (rule exI [of _ "emit (Sys_waitpid (pid this)) (w1\<lparr>waitpid_replies := rest, errno := err\<rparr>)"])
       (simp add: w1 emit_def assms(3,4))
qed

lemma wait_retries_snoc:
  "wait_retries p n @ [Sys_waitpid p, CheckInterrupt] = wait_retries p (Suc n)"
  by (induction n) (simp_all add: wait_retries_def)

lemma wait_loop_cancelled:
  assumes "all_interrupted (pid this) es"
    and "interrupt_replies w = replicate (length es) False @ True # irest"
    and "res \<noteq> pid this"
  shows "\<exists>w'. wait_loop this (es @ (res, status, EINTR) # rest) w
                 = Some (Throws Interrupted, this, w')
           \<and> trace w' = trace w @ wait_retries (pid this) (Suc (length es))
           \<and> waitpid_replies w' = rest \<and> interrupt_replies w' = irest"
proof -
  from wait_loop_retries [OF assms(1,2), of "(res, status, EINTR)" rest] obtain w1 where
    w1: "wait_loop this (es @ (res, status, EINTR) # rest) w
           = wait_loop this ((res, status, EINTR) # rest) w1"
      "trace w1 = trace w @ wait_retries (pid this) (length es)"
      "interrupt_replies w1 = True # irest"
    by blast
  have "trace w @ wait_retries (pid this) (length es) @ [Sys_waitpid (pid this), CheckInterrupt]
          = trace w @ wait_retries (pid this) (Suc (length es))"
    by (simp only: wait_retries_snoc)
  then show ?thesis
    by (intro exI [of _ "emit CheckInterrupt
          (emit (Sys_waitpid (pid this)) (w1\<lparr>waitpid_replies := rest, errno := EINTR\<rparr>)
             \<lparr>interrupt_replies := irest\<rparr>)"])
       (simp add: w1 emit_def assms(3) checkInterrupt_def)
qed

text \<open>
  Claim C3. For a handle that owns a process, \<open>wait\<close> calls \<open>waitpid\<close> again each time the
  call fails with \<open>EINTR\<close>, with a call of \<open>checkInterrupt\<close> between two calls. After any
  number of such rounds: when \<open>waitpid\<close> returns the process id, \<open>wait\<close> returns the status
  stored and the handle is empty; when it fails with another error, \<open>wait\<close> throws the
  \<open>SysError\<close> "cannot get exit status of PID ..." and the handle still owns the process;
  when it fails with \<open>EINTR\<close> and the check that follows raises, \<open>wait\<close> throws
  \<open>Interrupted\<close> and the handle still owns the process.
\<close>

theorem Pid_wait_owning:
  assumes "pid this \<noteq> -1"
    and "all_interrupted (pid this) es"
    and "waitpid_replies w = es @ (res, status, err) # rest"
  shows
    "(res = pid this \<and> interrupt_replies w = replicate (length es) False @ irest \<longrightarrow>
        (\<exists>w'. Pid_wait this w = Some (Returns status, this\<lparr>pid := -1\<rparr>, w')
           \<and> trace w' = trace w @ wait_retries (pid this) (length es) @ [Sys_waitpid (pid this)]
           \<and> waitpid_replies w' = rest \<and> interrupt_replies w' = irest)) \<and>
     (res \<noteq> pid this \<and> err \<noteq> EINTR
        \<and> interrupt_replies w = replicate (length es) False @ irest \<longrightarrow>
        (\<exists>w'. Pid_wait this w
                  = Some (Throws (SysError err (''cannot get exit status of PID ''
                                                 @ show_int (pid this))), this, w')
           \<and> trace w' = trace w @ wait_retries (pid this) (length es) @ [Sys_waitpid (pid this)]
           \<and> waitpid_replies w' = rest \<and> interrupt_replies w' = irest)) \<and>
     (res \<noteq> pid this \<and> err = EINTR
        \<and> interrupt_replies w = replicate (length es) False @ True # irest \<longrightarrow>
        (\<exists>w'. Pid_wait this w = Some (Throws Interrupted, this, w')
           \<and> trace w' = trace w @ wait_retries (pid this) (Suc (length es))
           \<and> waitpid_replies w' = rest \<and> interrupt_replies w' = irest))"
proof (intro conjI impI)
  assume "res = pid this \<and> interrupt_replies w = replicate (length es) False @ irest"
  then show "\<exists>w'. Pid_wait this w = Some (Returns status, this\<lparr>pid := -1\<rparr>, w')
           \<and> trace w' = trace w @ wait_retries (pid this) (length es) @ [Sys_waitpid (pid this)]
           \<and> waitpid_replies w' = rest \<and> interrupt_replies w' = irest"
    using wait_loop_completes [OF assms(2), of w irest status err rest] assms(1,3)
    by (simp add: Pid_wait_def)
next
  assume "res \<noteq> pid this \<and> err \<noteq> EINTR
        \<and> interrupt_replies w = replicate (length es) False @ irest"
  then show "\<exists>w'. Pid_wait this w
                  = Some (Throws (SysError err (''cannot get exit status of PID ''
                                                 @ show_int (pid this))), this, w')
           \<and> trace w' = trace w @ wait_retries (pid this) (length es) @ [Sys_waitpid (pid this)]
           \<and> waitpid_replies w' = rest \<and> interrupt_replies w' = irest"
    using wait_loop_fails [OF assms(2), of w irest res err status rest] assms(1,3)
    by (simp add: Pid_wait_def)
next
  assume "res \<noteq> pid this \<and> err = EINTR
        \<and> interrupt_replies w = replicate (length es) False @ True # irest"
  then show "\<exists>w'. Pid_wait this w = Some (Throws Interrupted, this, w')
           \<and> trace w' = trace w @ wait_retries (pid this) (Suc (length es))
           \<and> waitpid_replies w' = rest \<and> interrupt_replies w' = irest"
    using wait_loop_cancelled [OF assms(2), of w irest res status rest] assms(1,3)
    by (simp add: Pid_wait_def)
qed

theorem Pid_wait_owning_witness:
  "(\<exists>w'. Pid_wait (Pid_of 100)
            (quiet\<lparr>waitpid_replies := [(-1, 0, EINTR), (100, 256, OtherErrno 0)],
                   interrupt_replies := [False]\<rparr>)
          = Some (Returns 256, (Pid_of 100)\<lparr>pid := -1\<rparr>, w')
        \<and> trace w' = [Sys_waitpid 100, CheckInterrupt, Sys_waitpid 100]
        \<and> waitpid_replies w' = [] \<and> interrupt_replies w' = []) \<and>
   (\<exists>w'. Pid_wait (Pid_of 100)
            (quiet\<lparr>waitpid_replies := [(-1, 0, EINTR), (-1, 0, OtherErrno 10)],
                   interrupt_replies := [False]\<rparr>)
          = Some (Throws (SysError (OtherErrno 10) ''cannot get exit status of PID 100''),
                  Pid_of 100, w')
        \<and> trace w' = [Sys_waitpid 100, CheckInterrupt, Sys_waitpid 100]
        \<and> waitpid_replies w' = [] \<and> interrupt_replies w' = []) \<and>
   (\<exists>w'. Pid_wait (Pid_of 100)
            (quiet\<lparr>waitpid_replies := [(-1, 0, EINTR), (-1, 0, EINTR)],
                   interrupt_replies := [False, True]\<rparr>)
          = Some (Throws Interrupted, Pid_of 100, w')
        \<and> trace w' = [Sys_waitpid 100, CheckInterrupt, Sys_waitpid 100, CheckInterrupt]
        \<and> waitpid_replies w' = [] \<and> interrupt_replies w' = [])"
  using
    Pid_wait_owning [where this = "Pid_of 100" and es = "[(-1, 0, EINTR)]" and res = 100
      and status = 256 and err = "OtherErrno 0" and rest = "[]" and irest = "[]"
      and w = "quiet\<lparr>waitpid_replies := [(-1, 0, EINTR), (100, 256, OtherErrno 0)],
                       interrupt_replies := [False]\<rparr>"]
    Pid_wait_owning [where this = "Pid_of 100" and es = "[(-1, 0, EINTR)]" and res = "-1"
      and status = 0 and err = "OtherErrno 10" and rest = "[]" and irest = "[]"
      and w = "quiet\<lparr>waitpid_replies := [(-1, 0, EINTR), (-1, 0, OtherErrno 10)],
                       interrupt_replies := [False]\<rparr>"]
    Pid_wait_owning [where this = "Pid_of 100" and es = "[(-1, 0, EINTR)]" and res = "-1"
      and status = 0 and err = EINTR and rest = "[]" and irest = "[]"
      and w = "quiet\<lparr>waitpid_replies := [(-1, 0, EINTR), (-1, 0, EINTR)],
                       interrupt_replies := [False, True]\<rparr>"]
  by (simp add: Pid_of_def Pid_default_def all_interrupted_def wait_retries_def quiet_def
        show_int_def show_nat.simps digit_def)

section \<open>ProcessHandle: ownership\<close>

lemma wait_loop_handle:
  "wait_loop this rs w = Some (r, this', w') \<Longrightarrow>
     this' = (case r of Returns st \<Rightarrow> this\<lparr>pid := -1\<rparr> | Throws e \<Rightarrow> this | Halts h \<Rightarrow> this)"
proof (induction rs arbitrary: w r this' w')
  case Nil
  then show ?case by simp
next
  case (Cons e rs)
  obtain res st err where e: "e = (res, st, err)" by (cases e)
  let ?w1 = "emit (Sys_waitpid (pid this)) (w\<lparr>waitpid_replies := rs, errno := err\<rparr>)"
  show ?case
  proof (cases "res = pid this")
    case True
    with Cons.prems show ?thesis by (auto simp: e Let_def)
  next
    case ne: False
    show ?thesis
    proof (cases "errno ?w1 \<noteq> EINTR")
      case True
      with ne Cons.prems show ?thesis by (auto simp: e Let_def)
    next
      case False
      with ne Cons.prems have
        c: "(case checkInterrupt ?w1 of
               None \<Rightarrow> None
             | Some (Returns u, w2) \<Rightarrow> wait_loop this rs w2
             | Some (Throws e, w2) \<Rightarrow> Some (Throws e, this, w2)
             | Some (Halts h, w2) \<Rightarrow> Some (Halts h, this, w2)) = Some (r, this', w')"
        by (simp add: e Let_def)
      then show ?thesis
        by (auto split: option.splits outcome.splits prod.splits dest: Cons.IH)
    qed
  qed
qed

lemma Pid_wait_handle:
  "Pid_wait this w = Some (r, this', w') \<Longrightarrow>
     this' = (case r of Returns st \<Rightarrow> this\<lparr>pid := -1\<rparr> | Throws e \<Rightarrow> this | Halts h \<Rightarrow> this)"
  by (auto simp: Pid_wait_def split: if_splits dest: wait_loop_handle)

lemma Pid_kill_handle:
  "Pid_kill b this w = Some (r, this', w') \<Longrightarrow>
     this' = (case r of Returns st \<Rightarrow> this\<lparr>pid := -1\<rparr> | Throws e \<Rightarrow> this | Halts h \<Rightarrow> this)"
  by (auto simp: Pid_kill_def Let_def split: if_splits option.splits prod.splits
        dest: Pid_wait_handle)

lemma Pid_eta: "\<lparr>pid = pid x, separatePG = separatePG x, killSignal = killSignal x\<rparr> = x"
  by simp

lemma Pid_assign_swapped_distinct:
  "this_a \<noteq> other \<Longrightarrow>
     Pid_assign_swapped this_a other st
       = (st(other := (st other)\<lparr>pid := -1\<rparr>, this_a := st other), st this_a)"
  by (simp add: Pid_assign_swapped_def Pid_move_def Pid_eta)

lemma Pid_assign_swapped_self:
  "Pid_assign_swapped a a st = (st, (st a)\<lparr>pid := -1\<rparr>)"
  by (simp add: Pid_assign_swapped_def Pid_move_def Pid_eta)

lemma Pid_assign_distinct:
  assumes "this_a \<noteq> other"
  shows "Pid_assign b this_a other st w =
     (case Pid_dtor b (st this_a) w of
        None \<Rightarrow> None
      | Some (r, tmp', w') \<Rightarrow>
          Some (r, st(other := (st other)\<lparr>pid := -1\<rparr>, this_a := st other), w'))"
  by (simp add: Pid_assign_def Pid_assign_swapped_distinct [OF assms])

text \<open>
  Assigning a handle to itself leaves it as it was, and nothing is signalled or waited
  for: the temporary is empty when it is destroyed.
\<close>

lemma Pid_assign_self: "Pid_assign b a a st w = Some (Returns (), st, w)"
  by (simp add: Pid_assign_def Pid_assign_swapped_self Pid_dtor_def)

text \<open>
  Claim C4. A handle is empty when its process id is the sentinel -1, and the
  default-constructed handle is empty. From a handle that owns a process, \<open>release\<close>
  leads to the empty handle and returns the process id, and \<open>wait\<close> and \<open>kill\<close> lead to the
  empty handle exactly when they return a status (otherwise the handle is unchanged). On
  an empty handle \<open>wait\<close> and \<open>kill\<close> stop at their assertion and \<open>release\<close> returns -1, so
  the handle stays empty; the setters do not touch the process id. The move constructor
  gives the new handle what the source held and empties the source; the move assignment
  between two different handles gives the destination what the source held and empties the
  source, and no other handle changes.
\<close>

theorem Pid_exclusive_ownership:
  "\<not> Pid_bool Pid_default \<and>
   (Pid_bool p \<longleftrightarrow> pid p \<noteq> -1) \<and>
   fst (Pid_release p) = pid p \<and> \<not> Pid_bool (snd (Pid_release p)) \<and>
   (Pid_bool p \<and> Pid_wait p w = Some (r, p', w') \<longrightarrow>
      (\<not> Pid_bool p' \<longleftrightarrow> (\<exists>status. r = Returns status)) \<and> (Pid_bool p' \<longrightarrow> p' = p)) \<and>
   (Pid_bool p \<and> Pid_kill b p w = Some (rk, pk, wk) \<longrightarrow>
      (\<not> Pid_bool pk \<longleftrightarrow> (\<exists>status. rk = Returns status)) \<and> (Pid_bool pk \<longrightarrow> pk = p)) \<and>
   (\<not> Pid_bool p \<longrightarrow>
      Pid_wait p w = Some (Halts (AssertionFailed ''pid != -1''), p, w) \<and>
      Pid_kill b p w = Some (Halts (AssertionFailed ''pid != -1''), p, w) \<and>
      Pid_release p = (-1, p)) \<and>
   Pid_bool (Pid_setSeparatePG v p) = Pid_bool p \<and>
   Pid_bool (Pid_setKillSignal s p) = Pid_bool p \<and>
   fst (Pid_move other st) = st other \<and>
   \<not> Pid_bool (snd (Pid_move other st) other) \<and>
   (\<forall>a. a \<noteq> other \<longrightarrow> snd (Pid_move other st) a = st a) \<and>
   (this_a \<noteq> other \<and> Pid_assign b this_a other st w = Some (ra, st', wa) \<longrightarrow>
      st' this_a = st other \<and> \<not> Pid_bool (st' other) \<and>
      (\<forall>a. a \<noteq> this_a \<and> a \<noteq> other \<longrightarrow> st' a = st a))"
proof -
  have a1: "\<not> Pid_bool Pid_default"
    by (simp add: Pid_bool_def Pid_default_def)
  have a2: "Pid_bool p \<longleftrightarrow> pid p \<noteq> -1"
    by (simp add: Pid_bool_def)
  have a3: "fst (Pid_release p) = pid p" "\<not> Pid_bool (snd (Pid_release p))"
    by (simp_all add: Pid_release_def Pid_bool_def)
  have a4: "Pid_bool p \<and> Pid_wait p w = Some (r, p', w') \<longrightarrow>
      (\<not> Pid_bool p' \<longleftrightarrow> (\<exists>status. r = Returns status)) \<and> (Pid_bool p' \<longrightarrow> p' = p)"
    by (cases r) (auto simp: Pid_bool_def dest: Pid_wait_handle)
  have a5: "Pid_bool p \<and> Pid_kill b p w = Some (rk, pk, wk) \<longrightarrow>
      (\<not> Pid_bool pk \<longleftrightarrow> (\<exists>status. rk = Returns status)) \<and> (Pid_bool pk \<longrightarrow> pk = p)"
    by (cases rk) (auto simp: Pid_bool_def dest: Pid_kill_handle)
  have a6: "\<not> Pid_bool p \<longrightarrow>
      Pid_wait p w = Some (Halts (AssertionFailed ''pid != -1''), p, w) \<and>
      Pid_kill b p w = Some (Halts (AssertionFailed ''pid != -1''), p, w) \<and>
      Pid_release p = (-1, p)"
    by (simp add: Pid_bool_def Pid_wait_def Pid_kill_def Pid_release_def)
  have a7: "Pid_bool (Pid_setSeparatePG v p) = Pid_bool p"
    "Pid_bool (Pid_setKillSignal s p) = Pid_bool p"
    by (simp_all add: Pid_bool_def Pid_setSeparatePG_def Pid_setKillSignal_def)
  have a8: "fst (Pid_move other st) = st other"
    "\<not> Pid_bool (snd (Pid_move other st) other)"
    "\<forall>a. a \<noteq> other \<longrightarrow> snd (Pid_move other st) a = st a"
    by (simp_all add: Pid_move_def Pid_bool_def Pid_eta)
  have a9: "this_a \<noteq> other \<and> Pid_assign b this_a other st w = Some (ra, st', wa) \<longrightarrow>
      st' this_a = st other \<and> \<not> Pid_bool (st' other) \<and>
      (\<forall>a. a \<noteq> this_a \<and> a \<noteq> other \<longrightarrow> st' a = st a)"
    by (auto simp: Pid_assign_distinct Pid_bool_def split: option.splits prod.splits)
  show ?thesis
    by (intro conjI; fact a1 a2 a3 a4 a5 a6 a7 a8 a9)
qed

theorem Pid_exclusive_ownership_witness:
  "Pid_bool (Pid_of 100) \<and>
   Pid_wait (Pid_of 100) (quiet\<lparr>waitpid_replies := [(100, 0, OtherErrno 0)]\<rparr>)
     = Some (Returns 0, (Pid_of 100)\<lparr>pid := -1\<rparr>, quiet\<lparr>trace := [Sys_waitpid 100]\<rparr>) \<and>
   \<not> Pid_bool ((Pid_of 100)\<lparr>pid := -1\<rparr>) \<and>
   Pid_kill linux (Pid_of 100)
       (quiet\<lparr>waitpid_replies := [(100, 9, OtherErrno 0)], kill_replies := [(0, OtherErrno 0)]\<rparr>)
     = Some (Returns 9, (Pid_of 100)\<lparr>pid := -1\<rparr>,
             quiet\<lparr>trace := [Debug (''killing process '' @ show_int 100), Sys_kill 100 SIGKILL,
                              Sys_waitpid 100]\<rparr>) \<and>
   \<not> Pid_bool Pid_default \<and>
   Pid_wait Pid_default quiet = Some (Halts (AssertionFailed ''pid != -1''), Pid_default, quiet) \<and>
   (0::nat) \<noteq> 1 \<and>
   Pid_assign linux 0 1 two_handles
       (quiet\<lparr>waitpid_replies := [(100, 9, OtherErrno 0)], kill_replies := [(0, OtherErrno 0)]\<rparr>)
     = Some (Returns (),
             two_handles(1 := (two_handles 1)\<lparr>pid := -1\<rparr>, 0 := two_handles 1),
             quiet\<lparr>trace := [Debug (''killing process '' @ show_int 100), Sys_kill 100 SIGKILL,
                              Sys_waitpid 100]\<rparr>) \<and>
   (two_handles(1 := (two_handles 1)\<lparr>pid := -1\<rparr>, 0 := two_handles 1)) 0 = Pid_of 200 \<and>
   \<not> Pid_bool ((two_handles(1 := (two_handles 1)\<lparr>pid := -1\<rparr>, 0 := two_handles 1)) 1)"
proof -
  let ?w1 = "quiet\<lparr>waitpid_replies := [(100, 0, OtherErrno 0)]\<rparr>"
  let ?w2 = "quiet\<lparr>waitpid_replies := [(100, 9, OtherErrno 0)],
                   kill_replies := [(0, OtherErrno 0)]\<rparr>"
  let ?t2 = "quiet\<lparr>trace := [Debug (''killing process '' @ show_int 100), Sys_kill 100 SIGKILL,
                              Sys_waitpid 100]\<rparr>"
  let ?st = "two_handles(1 := (two_handles 1)\<lparr>pid := -1\<rparr>, 0 := two_handles 1)"
  have o: "Pid_bool (Pid_of 100)"
    by (simp add: Pid_bool_def Pid_of_def)
  have e1: "Pid_wait (Pid_of 100) ?w1
      = Some (Returns 0, (Pid_of 100)\<lparr>pid := -1\<rparr>, quiet\<lparr>trace := [Sys_waitpid 100]\<rparr>)"
    by (simp add: Pid_wait_def Pid_of_def Pid_default_def quiet_def emit_def)
  have e2: "Pid_kill linux (Pid_of 100) ?w2 = Some (Returns 9, (Pid_of 100)\<lparr>pid := -1\<rparr>, ?t2)"
    by (simp add: Pid_kill_def sys_kill_def Pid_wait_def Pid_of_def Pid_default_def quiet_def
          emit_def)
  have t0: "two_handles 0 = Pid_of 100" "two_handles 1 = Pid_of 200"
    by (simp_all add: two_handles_def)
  have e3: "Pid_assign linux 0 1 two_handles ?w2 = Some (Returns (), ?st, ?t2)"
    by (simp add: Pid_assign_distinct Pid_dtor_def t0 e2) (simp add: Pid_of_def)
  have c1: "\<not> Pid_bool ((Pid_of 100)\<lparr>pid := -1\<rparr>)"
    using Pid_exclusive_ownership [where p = "Pid_of 100" and w = ?w1 and r = "Returns 0"
        and p' = "(Pid_of 100)\<lparr>pid := -1\<rparr>" and w' = "quiet\<lparr>trace := [Sys_waitpid 100]\<rparr>"]
      o e1 by blast
  have c2: "\<not> Pid_bool Pid_default"
    "Pid_wait Pid_default quiet = Some (Halts (AssertionFailed ''pid != -1''), Pid_default, quiet)"
    using Pid_exclusive_ownership [where p = Pid_default and w = quiet] by blast+
  have c3: "?st 0 = two_handles 1 \<and> \<not> Pid_bool (?st 1)"
    using Pid_exclusive_ownership [where this_a = 0 and other = 1 and st = two_handles
        and b = linux and w = ?w2 and ra = "Returns ()" and st' = ?st and wa = ?t2] e3
    by simp
  show ?thesis
    using o e1 e2 e3 c1 c2 c3 by (simp add: two_handles_def)
qed

section \<open>ProcessHandle: move assignment and destruction\<close>

lemma Pid_dtor_empty: "\<not> Pid_bool p \<Longrightarrow> Pid_dtor b p w = Some (Returns (), p, w)"
  by (simp add: Pid_dtor_def Pid_bool_def)

lemma Pid_kill_at_once:
  assumes "pid p \<noteq> -1" "kill_replies w = (0, ek) # ks"
    "waitpid_replies w = (pid p, status, ew) # rs"
  shows "\<exists>w'. Pid_kill b p w = Some (Returns status, p\<lparr>pid := -1\<rparr>, w')
           \<and> trace w' = trace w @ [Debug (''killing process '' @ show_int (pid p)),
                  Sys_kill (if separatePG p then - pid p else pid p) (killSignal p),
                  Sys_waitpid (pid p)]"
  using assms by (simp add: Pid_kill_def sys_kill_def Pid_wait_def emit_def)

text \<open>
  Claim C10, as amended. The move assignment onto a handle that owns a process, from
  another handle, first gives the handle what the source held and empties the source: after
  the swaps the old process is held by the temporary only. The temporary is destroyed
  when the function returns, which is \<open>kill\<close> on the old process with the old handle's
  signal and process-group setting: the signal, then \<open>wait\<close>; what \<open>kill\<close> throws leaves
  the assignment, with the handle holding the new process. When the signal is delivered
  and \<open>waitpid\<close> returns the old process id at once, the events are the signal and the
  wait, and the assignment returns. Destroying an empty handle, such as one that has been
  moved from, changes nothing in the world: no signal and no wait.
\<close>

theorem Pid_assign_onto_owning:
  assumes "this_a \<noteq> other" "Pid_bool (st this_a)"
  shows
    "Pid_assign_swapped this_a other st
       = (st(other := (st other)\<lparr>pid := -1\<rparr>, this_a := st other), st this_a) \<and>
     Pid_assign b this_a other st w =
       (case Pid_kill b (st this_a) w of
          None \<Rightarrow> None
        | Some (Returns status, tmp', w') \<Rightarrow>
            Some (Returns (), st(other := (st other)\<lparr>pid := -1\<rparr>, this_a := st other), w')
        | Some (Throws e, tmp', w') \<Rightarrow>
            Some (Throws e, st(other := (st other)\<lparr>pid := -1\<rparr>, this_a := st other), w')
        | Some (Halts h, tmp', w') \<Rightarrow>
            Some (Halts h, st(other := (st other)\<lparr>pid := -1\<rparr>, this_a := st other), w')) \<and>
     (kill_replies w = (0, ek) # ks \<and> waitpid_replies w = (pid (st this_a), status, ew) # rs \<longrightarrow>
        (\<exists>w'. Pid_assign b this_a other st w
                  = Some (Returns (), st(other := (st other)\<lparr>pid := -1\<rparr>, this_a := st other), w')
           \<and> trace w' = trace w @ [Debug (''killing process '' @ show_int (pid (st this_a))),
                  Sys_kill (if separatePG (st this_a) then - pid (st this_a) else pid (st this_a))
                    (killSignal (st this_a)),
                  Sys_waitpid (pid (st this_a))])) \<and>
     (\<not> Pid_bool p \<longrightarrow> Pid_dtor b p w = Some (Returns (), p, w)) \<and>
     Pid_dtor b (snd (Pid_move other st) other) w
       = Some (Returns (), snd (Pid_move other st) other, w)"
proof -
  let ?st2 = "st(other := (st other)\<lparr>pid := -1\<rparr>, this_a := st other)"
  have own: "pid (st this_a) \<noteq> -1"
    using assms(2) by (simp add: Pid_bool_def)
  have a1: "Pid_assign_swapped this_a other st = (?st2, st this_a)"
    by (rule Pid_assign_swapped_distinct [OF assms(1)])
  have a2: "Pid_assign b this_a other st w =
       (case Pid_kill b (st this_a) w of
          None \<Rightarrow> None
        | Some (Returns status, tmp', w') \<Rightarrow> Some (Returns (), ?st2, w')
        | Some (Throws e, tmp', w') \<Rightarrow> Some (Throws e, ?st2, w')
        | Some (Halts h, tmp', w') \<Rightarrow> Some (Halts h, ?st2, w'))"
    using own
    by (simp add: Pid_assign_distinct [OF assms(1)] Pid_dtor_def
          split: option.splits prod.splits outcome.splits)
  have a3: "kill_replies w = (0, ek) # ks \<and> waitpid_replies w = (pid (st this_a), status, ew) # rs \<longrightarrow>
        (\<exists>w'. Pid_assign b this_a other st w = Some (Returns (), ?st2, w')
           \<and> trace w' = trace w @ [Debug (''killing process '' @ show_int (pid (st this_a))),
                  Sys_kill (if separatePG (st this_a) then - pid (st this_a) else pid (st this_a))
                    (killSignal (st this_a)),
                  Sys_waitpid (pid (st this_a))])"
  proof
    assume h: "kill_replies w = (0, ek) # ks \<and> waitpid_replies w = (pid (st this_a), status, ew) # rs"
    from Pid_kill_at_once [OF own, of w ek ks status ew rs b] h obtain w' where
      k: "Pid_kill b (st this_a) w = Some (Returns status, (st this_a)\<lparr>pid := -1\<rparr>, w')"
        "trace w' = trace w @ [Debug (''killing process '' @ show_int (pid (st this_a))),
                  Sys_kill (if separatePG (st this_a) then - pid (st this_a) else pid (st this_a))
                    (killSignal (st this_a)),
                  Sys_waitpid (pid (st this_a))]"
      by blast
    show "\<exists>w'. Pid_assign b this_a other st w = Some (Returns (), ?st2, w')
           \<and> trace w' = trace w @ [Debug (''killing process '' @ show_int (pid (st this_a))),
                  Sys_kill (if separatePG (st this_a) then - pid (st this_a) else pid (st this_a))
                    (killSignal (st this_a)),
                  Sys_waitpid (pid (st this_a))]"
      by (rule exI [of _ w']) (simp add: a2 k)
  qed
  have a4: "\<not> Pid_bool p \<longrightarrow> Pid_dtor b p w = Some (Returns (), p, w)"
    by (simp add: Pid_dtor_empty)
  have a5: "Pid_dtor b (snd (Pid_move other st) other) w
       = Some (Returns (), snd (Pid_move other st) other, w)"
    by (simp add: Pid_dtor_def Pid_move_def)
  show ?thesis
    by (intro conjI; fact a1 a2 a3 a4 a5)
qed

theorem Pid_assign_onto_owning_witness:
  "(0::nat) \<noteq> 1 \<and> Pid_bool (two_handles 0) \<and>
   Pid_assign_swapped 0 1 two_handles
     = (two_handles(1 := (two_handles 1)\<lparr>pid := -1\<rparr>, 0 := two_handles 1), two_handles 0) \<and>
   (\<exists>w'. Pid_assign linux 0 1 two_handles
            (quiet\<lparr>kill_replies := [(0, OtherErrno 0)],
                   waitpid_replies := [(100, 9, OtherErrno 0)]\<rparr>)
          = Some (Returns (), two_handles(1 := (two_handles 1)\<lparr>pid := -1\<rparr>, 0 := two_handles 1), w')
        \<and> trace w' = [Debug ''killing process 100'', Sys_kill 100 9, Sys_waitpid 100]) \<and>
   \<not> Pid_bool Pid_default \<and>
   Pid_dtor linux Pid_default quiet = Some (Returns (), Pid_default, quiet)"
proof -
  let ?w = "quiet\<lparr>kill_replies := [(0, OtherErrno 0)],
                  waitpid_replies := [(100, 9, OtherErrno 0)]\<rparr>"
  have h: "(0::nat) \<noteq> 1" "Pid_bool (two_handles 0)"
    by (simp_all add: two_handles_def Pid_bool_def Pid_of_def)
  have e: "\<not> Pid_bool Pid_default"
    by (simp add: Pid_bool_def Pid_default_def)
  have f: "pid (two_handles 0) = 100" "separatePG (two_handles 0) = False"
    "killSignal (two_handles 0) = 9" "trace ?w = []"
    "show_int 100 = ''100''"
    by (simp_all add: two_handles_def Pid_of_def Pid_default_def SIGKILL_def quiet_def
          show_int_def show_nat.simps digit_def)
  have k: "kill_replies ?w = (0, OtherErrno 0) # [] \<and>
           waitpid_replies ?w = (pid (two_handles 0), 9, OtherErrno 0) # []"
    by (simp add: f(1) quiet_def)
  note t = Pid_assign_onto_owning [where this_a = 0 and other = 1 and st = two_handles
        and b = linux and p = Pid_default and ek = "OtherErrno 0"
        and ks = "[]" and status = 9 and ew = "OtherErrno 0" and rs = "[]"
        and w = ?w, OF h]
  from t have c1: "Pid_assign_swapped 0 1 two_handles
     = (two_handles(1 := (two_handles 1)\<lparr>pid := -1\<rparr>, 0 := two_handles 1), two_handles 0)"
    by (rule conjunct1)
  from t k have c2: "\<exists>w'. Pid_assign linux 0 1 two_handles ?w
          = Some (Returns (), two_handles(1 := (two_handles 1)\<lparr>pid := -1\<rparr>, 0 := two_handles 1), w')
        \<and> trace w' = trace ?w @ [Debug (''killing process '' @ show_int (pid (two_handles 0))),
                  Sys_kill (if separatePG (two_handles 0) then - pid (two_handles 0)
                            else pid (two_handles 0))
                    (killSignal (two_handles 0)),
                  Sys_waitpid (pid (two_handles 0))]"
    by blast
  have c3: "\<exists>w'. Pid_assign linux 0 1 two_handles ?w
          = Some (Returns (), two_handles(1 := (two_handles 1)\<lparr>pid := -1\<rparr>, 0 := two_handles 1), w')
        \<and> trace w' = [Debug ''killing process 100'', Sys_kill 100 9, Sys_waitpid 100]"
    using c2 unfolding f by simp
  from Pid_assign_onto_owning [where this_a = 0 and other = 1 and st = two_handles
        and b = linux and p = Pid_default and w = quiet, OF h] e
  have c4: "Pid_dtor linux Pid_default quiet = Some (Returns (), Pid_default, quiet)"
    by blast
  show ?thesis
    using h e c1 c3 c4 by blast
qed

text \<open>
  Claim C10, as stated, fails. After the swaps of the assignment the handle 0 already
  holds the new process 200, and the old process 100 is held by the temporary, not yet
  signalled. When the wait for the old process then fails (here with \<open>errno\<close> 10, no such
  child), the assignment throws: the handle holds the new process, the source is empty,
  and the old process has been signalled but not reaped and belongs to no handle.
\<close>

theorem Pid_assign_takes_new_before_killing_old:
  "fst (Pid_assign_swapped 0 1 two_handles) 0 = Pid_of 200 \<and>
   snd (Pid_assign_swapped 0 1 two_handles) = Pid_of 100 \<and>
   assign_view (Pid_assign linux 0 1 two_handles
       (quiet\<lparr>kill_replies := [(0, OtherErrno 0)],
              waitpid_replies := [(-1, 0, OtherErrno 10)]\<rparr>))
     = Some (Throws (SysError (OtherErrno 10) ''cannot get exit status of PID 100''),
             200, -1, [Debug ''killing process 100'', Sys_kill 100 9, Sys_waitpid 100])"
  by (simp add: assign_view_def Pid_assign_def Pid_assign_swapped_def Pid_move_def Pid_dtor_def
        Pid_kill_def sys_kill_def Pid_wait_def two_handles_def Pid_of_def Pid_default_def
        quiet_def emit_def SIGKILL_def show_int_def show_nat.simps digit_def)

section \<open>RunningProgram: wait\<close>

lemma Pid_wait_completes:
  assumes "pid p \<noteq> -1" "all_interrupted (pid p) es"
    and "interrupt_replies w = replicate (length es) False @ irest"
    and "waitpid_replies w = es @ (pid p, status, ew) # rest"
  shows "\<exists>w'. Pid_wait p w = Some (Returns status, p\<lparr>pid := -1\<rparr>, w')
           \<and> trace w' = trace w @ wait_retries (pid p) (length es) @ [Sys_waitpid (pid p)]
           \<and> waitpid_replies w' = rest \<and> interrupt_replies w' = irest"
  using wait_loop_completes [OF assms(2,3), of status ew rest] assms(1,4)
  by (simp add: Pid_wait_def)

lemma Pid_kill_delivers:
  assumes "pid p \<noteq> -1" and "kill_replies w = (kret, kerr) # ks"
    and "(target b = FreeBSD \<or> target b = Apple) \<and> kret \<noteq> 0 \<and> kerr = EPERM
           \<longrightarrow> ks = (pret, perr) # ks'"
  shows "\<exists>wk. Pid_kill b p w = Pid_wait p wk
           \<and> trace wk = trace w @ kill_events b p kret kerr pret perr
           \<and> interrupt_replies wk = interrupt_replies w
           \<and> waitpid_replies wk = waitpid_replies w"
proof -
  let ?k = "Sys_kill (if separatePG p then - pid p else pid p) (killSignal p)"
  let ?w1 = "emit (Debug (''killing process '' @ show_int (pid p))) w"
  let ?w2 = "emit ?k (?w1\<lparr>kill_replies := ks, errno := kerr\<rparr>)"
  let ?w2' = "emit (Sys_kill (pid p) 0) (?w2\<lparr>kill_replies := ks', errno := perr\<rparr>)"
  let ?wk = "if kret = 0 then ?w2
             else if (target b = FreeBSD \<or> target b = Apple) \<and> kerr = EPERM then
               (if pret \<noteq> 0 then logKillError p ?w2' else ?w2')
             else logKillError p ?w2"
  have k: "sys_kill ?k ?w1 = Some (kret, ?w2)"
    using assms(2) by (simp add: sys_kill_def emit_def)
  have f: "kret \<noteq> 0 \<Longrightarrow> kill_failed b p ?w2 = Some ?wk"
    using assms(3) by (auto simp: kill_failed_def emit_def sys_kill_def)
  have step: "Pid_kill b p w = Pid_wait p ?wk"
    using assms(1) k f by (simp add: Pid_kill_def Let_def)
  have t: "trace ?wk = trace w @ kill_events b p kret kerr pret perr"
    by (simp add: emit_def logKillError_def kill_events_def)
  have i: "interrupt_replies ?wk = interrupt_replies w"
    by (simp add: emit_def logKillError_def)
  have r: "waitpid_replies ?wk = waitpid_replies w"
    by (simp add: emit_def logKillError_def)
  show ?thesis
    by (rule exI [of _ ?wk]) (simp only: step t i r simp_thms)
qed

lemma Pid_kill_completes:
  assumes "pid p \<noteq> -1" "all_interrupted (pid p) es"
    and "interrupt_replies w = replicate (length es) False @ irest"
    and "waitpid_replies w = es @ (pid p, status, ew) # rest"
    and "kill_replies w = (kret, kerr) # ks"
    and "(target b = FreeBSD \<or> target b = Apple) \<and> kret \<noteq> 0 \<and> kerr = EPERM
           \<longrightarrow> ks = (pret, perr) # ks'"
  shows "\<exists>w'. Pid_kill b p w = Some (Returns status, p\<lparr>pid := -1\<rparr>, w')
           \<and> trace w' = trace w @ kill_events b p kret kerr pret perr
                @ wait_retries (pid p) (length es) @ [Sys_waitpid (pid p)]
           \<and> waitpid_replies w' = rest \<and> interrupt_replies w' = irest"
proof -
  from Pid_kill_delivers [OF assms(1,5,6)] obtain wk where
    wk: "Pid_kill b p w = Pid_wait p wk"
      "trace wk = trace w @ kill_events b p kret kerr pret perr"
      "interrupt_replies wk = interrupt_replies w" "waitpid_replies wk = waitpid_replies w"
    by blast
  have i3: "interrupt_replies wk = replicate (length es) False @ irest"
    using assms(3) wk(3) by simp
  have r3: "waitpid_replies wk = es @ (pid p, status, ew) # rest"
    using assms(4) wk(4) by simp
  from Pid_wait_completes [OF assms(1,2) i3 r3] obtain w' where
    w': "Pid_wait p wk = Some (Returns status, p\<lparr>pid := -1\<rparr>, w')"
      "trace w' = trace wk @ wait_retries (pid p) (length es) @ [Sys_waitpid (pid p)]"
      "waitpid_replies w' = rest" "interrupt_replies w' = irest"
    by blast
  show ?thesis
    by (rule exI [of _ w']) (simp only: wk(1,2) w' append_assoc simp_thms)
qed

lemma nonzero_iff_not_ok:
  assumes "(0 \<le> c \<and> c \<le> 255 \<and> status = W_EXITCODE c 0) \<or>
           (1 \<le> sig \<and> sig \<le> 126 \<and>
              (status = W_EXITCODE 0 sig \<or> status = W_EXITCODE 0 sig OR WCOREFLAG))"
  shows "status \<noteq> 0 \<longleftrightarrow> \<not> statusOk status"
  using assms
proof
  assume "0 \<le> c \<and> c \<le> 255 \<and> status = W_EXITCODE c 0"
  then have "status = c * 256" "WIFEXITED status" "WEXITSTATUS status = c"
    using exit_status_decodes [of c] by (simp_all add: W_EXITCODE_plus)
  then show ?thesis by (simp add: statusOk_def)
next
  assume s: "1 \<le> sig \<and> sig \<le> 126 \<and>
              (status = W_EXITCODE 0 sig \<or> status = W_EXITCODE 0 sig OR WCOREFLAG)"
  then have "\<not> WIFEXITED status"
    using signal_status_decodes [of sig] by auto
  moreover from this have "status \<noteq> 0"
    by (auto simp: WIFEXITED_mod)
  ultimately show ?thesis by (simp add: statusOk_def)
qed


lemma Pid_kill_fails:
  assumes "pid p \<noteq> -1" "all_interrupted (pid p) es"
    and "interrupt_replies w = replicate (length es) False @ irest"
    and "waitpid_replies w = es @ (res, status, err) # rest"
    and "res \<noteq> pid p" "err \<noteq> EINTR"
    and "kill_replies w = (kret, kerr) # ks"
    and "(target b = FreeBSD \<or> target b = Apple) \<and> kret \<noteq> 0 \<and> kerr = EPERM
           \<longrightarrow> ks = (pret, perr) # ks'"
  shows "\<exists>w'. Pid_kill b p w
                 = Some (Throws (SysError err (''cannot get exit status of PID ''
                                                @ show_int (pid p))), p, w')"
proof -
  from Pid_kill_delivers [OF assms(1,7,8)] obtain wk where
    wk: "Pid_kill b p w = Pid_wait p wk"
      "interrupt_replies wk = interrupt_replies w" "waitpid_replies wk = waitpid_replies w"
    by blast
  have i3: "interrupt_replies wk = replicate (length es) False @ irest"
    using assms(3) wk(2) by simp
  have r3: "waitpid_replies wk = es @ (res, status, err) # rest"
    using assms(4) wk(3) by simp
  from wait_loop_fails [OF assms(2) i3 assms(5,6), of status rest] obtain w' where
    "wait_loop p (es @ (res, status, err) # rest) wk
       = Some (Throws (SysError err (''cannot get exit status of PID '' @ show_int (pid p))), p, w')"
    by blast
  then have "Pid_wait p wk
       = Some (Throws (SysError err (''cannot get exit status of PID '' @ show_int (pid p))), p, w')"
    using assms(1) r3 by (simp add: Pid_wait_def)
  then show ?thesis
    by (intro exI [of _ w']) (simp only: wk(1))
qed

text \<open>
  Claim C2, as amended. For a \<open>RunningProgram\<close> that owns a process, after any number of
  interrupted rounds of the wait: when the system reports the completion of the process,
  \<open>wait\<close> called while no exception is propagating throws the \<open>ExecError\<close> with the status
  and the message "program '...' " followed by the decoded status exactly when the status
  is not 0, and returns normally otherwise; for every status of a terminated child (a
  normal exit with a code from 0 to 255, or a death by a signal from 1 to 126, with or
  without core dump) the status is not 0 exactly when it is not ok. Called while an
  exception is propagating, on every build, \<open>wait\<close> kills the process: it sends the signal
  of the handle; on FreeBSD and macOS, after a delivery that failed with \<open>EPERM\<close>, it
  probes the process with the signal 0; it logs an error if the delivery failed, unless on
  those two systems the failure was \<open>EPERM\<close> and the probe succeeded; then it waits. When
  that wait returns a status, \<open>wait\<close> logs that it killed the process and returns normally
  whatever the status is. When instead that wait fails with an error other than \<open>EINTR\<close>,
  the \<open>SysError\<close> of the handle leaves \<open>wait\<close> and the handle still owns the process.
\<close>

theorem RunningProgram_wait_owning:
  assumes "Pid_bool (rp_pid this)"
    and "all_interrupted (pid (rp_pid this)) es"
    and "interrupt_replies w = replicate (length es) False @ irest"
  shows
    "(waitpid_replies w = es @ (pid (rp_pid this), status, ew) # rest \<longrightarrow>
        (\<exists>w'. RunningProgram_wait b strsignal 0 this w
              = Some (if status \<noteq> 0 then
                        Throws (ExecError status
                          (''program '' @ quoted (rp_program this) @ '' ''
                           @ statusToString b strsignal status))
                      else Returns (),
                      this\<lparr>rp_pid := (rp_pid this)\<lparr>pid := -1\<rparr>\<rparr>, w')
           \<and> trace w' = trace w @ wait_retries (pid (rp_pid this)) (length es)
                       @ [Sys_waitpid (pid (rp_pid this))])) \<and>
     ((0 \<le> c \<and> c \<le> 255 \<and> status = W_EXITCODE c 0) \<or>
      (1 \<le> sig \<and> sig \<le> 126 \<and>
         (status = W_EXITCODE 0 sig \<or> status = W_EXITCODE 0 sig OR WCOREFLAG)) \<longrightarrow>
        (status \<noteq> 0 \<longleftrightarrow> \<not> statusOk status)) \<and>
     (0 < uncaught \<and> kill_replies w = (kret, kerr) # ks \<and>
      ((target b = FreeBSD \<or> target b = Apple) \<and> kret \<noteq> 0 \<and> kerr = EPERM
         \<longrightarrow> ks = (pret, perr) # ks') \<and>
      waitpid_replies w = es @ (pid (rp_pid this), status, ew) # rest \<longrightarrow>
        (\<exists>w'. RunningProgram_wait b strsignal uncaught this w
                  = Some (Returns (), this\<lparr>rp_pid := (rp_pid this)\<lparr>pid := -1\<rparr>\<rparr>, w')
           \<and> trace w' = trace w
                @ kill_events b (rp_pid this) kret kerr pret perr
                @ wait_retries (pid (rp_pid this)) (length es)
                @ [Sys_waitpid (pid (rp_pid this)),
                   Debug (''killed subprocess '' @ rp_program this
                          @ '' during exception handling'')])) \<and>
     (0 < uncaught \<and> kill_replies w = (kret, kerr) # ks \<and>
      ((target b = FreeBSD \<or> target b = Apple) \<and> kret \<noteq> 0 \<and> kerr = EPERM
         \<longrightarrow> ks = (pret, perr) # ks') \<and>
      waitpid_replies w = es @ (res, status, err) # rest \<and> res \<noteq> pid (rp_pid this) \<and>
      err \<noteq> EINTR \<longrightarrow>
        (\<exists>w'. RunningProgram_wait b strsignal uncaught this w
                  = Some (Throws (SysError err (''cannot get exit status of PID ''
                                                 @ show_int (pid (rp_pid this)))),
                          this, w')))"
proof (intro conjI impI)
  have own: "pid (rp_pid this) \<noteq> -1"
    using assms(1) by (simp add: Pid_bool_def)
  assume r: "waitpid_replies w = es @ (pid (rp_pid this), status, ew) # rest"
  from Pid_wait_completes [OF own assms(2,3) r] obtain w' where
    w': "Pid_wait (rp_pid this) w = Some (Returns status, (rp_pid this)\<lparr>pid := -1\<rparr>, w')"
      "trace w' = trace w @ wait_retries (pid (rp_pid this)) (length es)
                  @ [Sys_waitpid (pid (rp_pid this))]"
    by blast
  show "\<exists>w'. RunningProgram_wait b strsignal 0 this w
              = Some (if status \<noteq> 0 then
                        Throws (ExecError status
                          (''program '' @ quoted (rp_program this) @ '' ''
                           @ statusToString b strsignal status))
                      else Returns (),
                      this\<lparr>rp_pid := (rp_pid this)\<lparr>pid := -1\<rparr>\<rparr>, w')
        \<and> trace w' = trace w @ wait_retries (pid (rp_pid this)) (length es)
                       @ [Sys_waitpid (pid (rp_pid this))]"
    by (rule exI [of _ w']) (simp add: RunningProgram_wait_def w')
next
  assume "(0 \<le> c \<and> c \<le> 255 \<and> status = W_EXITCODE c 0) \<or>
      (1 \<le> sig \<and> sig \<le> 126 \<and>
         (status = W_EXITCODE 0 sig \<or> status = W_EXITCODE 0 sig OR WCOREFLAG))"
  then show "status \<noteq> 0 \<longleftrightarrow> \<not> statusOk status"
    by (rule nonzero_iff_not_ok)
next
  assume h: "0 < uncaught \<and> kill_replies w = (kret, kerr) # ks \<and>
      ((target b = FreeBSD \<or> target b = Apple) \<and> kret \<noteq> 0 \<and> kerr = EPERM
         \<longrightarrow> ks = (pret, perr) # ks') \<and>
      waitpid_replies w = es @ (pid (rp_pid this), status, ew) # rest"
  have own: "pid (rp_pid this) \<noteq> -1"
    using assms(1) by (simp add: Pid_bool_def)
  from h have hk: "kill_replies w = (kret, kerr) # ks"
    and hb: "(target b = FreeBSD \<or> target b = Apple) \<and> kret \<noteq> 0 \<and> kerr = EPERM
               \<longrightarrow> ks = (pret, perr) # ks'"
    and hu: "uncaught \<noteq> 0"
    and r: "waitpid_replies w = es @ (pid (rp_pid this), status, ew) # rest"
    by simp_all
  from Pid_kill_completes [OF own assms(2,3) r hk hb] obtain w' where
    w': "Pid_kill b (rp_pid this) w = Some (Returns status, (rp_pid this)\<lparr>pid := -1\<rparr>, w')"
      "trace w' = trace w @ kill_events b (rp_pid this) kret kerr pret perr
                @ wait_retries (pid (rp_pid this)) (length es) @ [Sys_waitpid (pid (rp_pid this))]"
    by blast
  show "\<exists>w'. RunningProgram_wait b strsignal uncaught this w
                  = Some (Returns (), this\<lparr>rp_pid := (rp_pid this)\<lparr>pid := -1\<rparr>\<rparr>, w')
           \<and> trace w' = trace w
                @ kill_events b (rp_pid this) kret kerr pret perr
                @ wait_retries (pid (rp_pid this)) (length es)
                @ [Sys_waitpid (pid (rp_pid this)),
                   Debug (''killed subprocess '' @ rp_program this
                          @ '' during exception handling'')]"
    by (rule exI [of _ "emit (Debug (''killed subprocess '' @ rp_program this
                          @ '' during exception handling'')) w'"])
       (simp add: RunningProgram_wait_def w' hu emit_def)
next
  assume h: "0 < uncaught \<and> kill_replies w = (kret, kerr) # ks \<and>
      ((target b = FreeBSD \<or> target b = Apple) \<and> kret \<noteq> 0 \<and> kerr = EPERM
         \<longrightarrow> ks = (pret, perr) # ks') \<and>
      waitpid_replies w = es @ (res, status, err) # rest \<and> res \<noteq> pid (rp_pid this) \<and>
      err \<noteq> EINTR"
  have own: "pid (rp_pid this) \<noteq> -1"
    using assms(1) by (simp add: Pid_bool_def)
  from h have hk: "kill_replies w = (kret, kerr) # ks"
    and hb: "(target b = FreeBSD \<or> target b = Apple) \<and> kret \<noteq> 0 \<and> kerr = EPERM
               \<longrightarrow> ks = (pret, perr) # ks'"
    and hu: "uncaught \<noteq> 0"
    and r: "waitpid_replies w = es @ (res, status, err) # rest"
    and ne: "res \<noteq> pid (rp_pid this)" "err \<noteq> EINTR"
    by simp_all
  from Pid_kill_fails [OF own assms(2,3) r ne hk hb] obtain w' where
    w': "Pid_kill b (rp_pid this) w
           = Some (Throws (SysError err (''cannot get exit status of PID ''
                                          @ show_int (pid (rp_pid this)))), rp_pid this, w')"
    by blast
  show "\<exists>w'. RunningProgram_wait b strsignal uncaught this w
                  = Some (Throws (SysError err (''cannot get exit status of PID ''
                                                 @ show_int (pid (rp_pid this)))),
                          this, w')"
    by (rule exI [of _ w']) (simp add: RunningProgram_wait_def w' hu)
qed

theorem RunningProgram_wait_owning_witness:
  "Pid_bool (rp_pid running_false) \<and>
   all_interrupted (pid (rp_pid running_false)) [(-1, 0, EINTR)] \<and>
   (\<exists>w'. RunningProgram_wait linux describe 0 running_false
            (quiet\<lparr>waitpid_replies := [(-1, 0, EINTR), (100, 256, OtherErrno 0)],
                   interrupt_replies := [False]\<rparr>)
          = Some (Throws (ExecError 256 (''program '' @ quoted ''/bin/false''
                                         @ '' failed with exit code 1'')),
                  running_false\<lparr>rp_pid := (rp_pid running_false)\<lparr>pid := -1\<rparr>\<rparr>, w')
        \<and> trace w' = [Sys_waitpid 100, CheckInterrupt, Sys_waitpid 100]) \<and>
   ((256::int) \<noteq> 0 \<longleftrightarrow> \<not> statusOk 256) \<and>
   (\<exists>w'. RunningProgram_wait linux describe 1 running_false
            (quiet\<lparr>waitpid_replies := [(-1, 0, EINTR), (100, 9, OtherErrno 0)],
                   interrupt_replies := [False], kill_replies := [(0, OtherErrno 0)]\<rparr>)
          = Some (Returns (), running_false\<lparr>rp_pid := (rp_pid running_false)\<lparr>pid := -1\<rparr>\<rparr>, w')
        \<and> trace w' = [Debug ''killing process 100'', Sys_kill 100 9, Sys_waitpid 100,
                       CheckInterrupt, Sys_waitpid 100,
                       Debug ''killed subprocess /bin/false during exception handling'']) \<and>
   (\<exists>w'. RunningProgram_wait freebsd describe 1 running_false
            (quiet\<lparr>waitpid_replies := [(-1, 0, EINTR), (100, 9, OtherErrno 0)],
                   interrupt_replies := [False],
                   kill_replies := [(-1, EPERM), (0, OtherErrno 0)]\<rparr>)
          = Some (Returns (), running_false\<lparr>rp_pid := (rp_pid running_false)\<lparr>pid := -1\<rparr>\<rparr>, w')
        \<and> trace w' = [Debug ''killing process 100'', Sys_kill 100 9, Sys_kill 100 0,
                       Sys_waitpid 100, CheckInterrupt, Sys_waitpid 100,
                       Debug ''killed subprocess /bin/false during exception handling'']) \<and>
   (\<exists>w'. RunningProgram_wait linux describe 1 running_false
            (quiet\<lparr>waitpid_replies := [(-1, 0, EINTR), (-1, 0, OtherErrno 10)],
                   interrupt_replies := [False], kill_replies := [(0, OtherErrno 0)]\<rparr>)
          = Some (Throws (SysError (OtherErrno 10) ''cannot get exit status of PID 100''),
                  running_false, w'))"
proof -
  let ?w1 = "quiet\<lparr>waitpid_replies := [(-1, 0, EINTR), (100, 256, OtherErrno 0)],
                   interrupt_replies := [False]\<rparr>"
  let ?w2 = "quiet\<lparr>waitpid_replies := [(-1, 0, EINTR), (100, 9, OtherErrno 0)],
                   interrupt_replies := [False], kill_replies := [(0, OtherErrno 0)]\<rparr>"
  let ?w3 = "quiet\<lparr>waitpid_replies := [(-1, 0, EINTR), (-1, 0, OtherErrno 10)],
                   interrupt_replies := [False], kill_replies := [(0, OtherErrno 0)]\<rparr>"
  let ?w4 = "quiet\<lparr>waitpid_replies := [(-1, 0, EINTR), (100, 9, OtherErrno 0)],
                   interrupt_replies := [False],
                   kill_replies := [(-1, EPERM), (0, OtherErrno 0)]\<rparr>"
  have f: "pid (rp_pid running_false) = 100" "separatePG (rp_pid running_false) = False"
    "killSignal (rp_pid running_false) = 9" "rp_program running_false = ''/bin/false''"
    "show_int 100 = ''100''"
    by (simp_all add: running_false_def RunningProgram_new_def Pid_of_def Pid_default_def
          SIGKILL_def show_int_def show_nat.simps digit_def)
  have s: "statusToString linux describe 256 = ''failed with exit code 1''"
    "(256::int) = W_EXITCODE 1 0"
    by (simp_all add: statusToString_def WIFEXITED_mod WEXITSTATUS_div_mod W_EXITCODE_plus
          show_int_def show_nat.simps digit_def)
  have h: "Pid_bool (rp_pid running_false)"
    "all_interrupted (pid (rp_pid running_false)) [(-1, 0, EINTR)]"
    by (simp_all add: Pid_bool_def f all_interrupted_def)
  have i: "interrupt_replies ?w1 = replicate (length [(-1::int, 0::int, EINTR)]) False @ []"
    "interrupt_replies ?w2 = replicate (length [(-1::int, 0::int, EINTR)]) False @ []"
    "interrupt_replies ?w3 = replicate (length [(-1::int, 0::int, EINTR)]) False @ []"
    "interrupt_replies ?w4 = replicate (length [(-1::int, 0::int, EINTR)]) False @ []"
    by (simp_all add: quiet_def)
  have ke: "kill_events linux (rp_pid running_false) 0 (OtherErrno 0) 0 (OtherErrno 0)
              = [Debug ''killing process 100'', Sys_kill 100 9]"
    "kill_events freebsd (rp_pid running_false) (-1) EPERM 0 (OtherErrno 0)
              = [Debug ''killing process 100'', Sys_kill 100 9, Sys_kill 100 0]"
    by (simp_all add: kill_events_def f freebsd_def)
  have k1: "waitpid_replies ?w1
      = [(-1, 0, EINTR)] @ (pid (rp_pid running_false), 256, OtherErrno 0) # []"
    "trace ?w1 = []"
    by (simp_all add: f quiet_def)
  have k2: "0 < (1::nat) \<and> kill_replies ?w2 = (0, OtherErrno 0) # [] \<and>
      ((target linux = FreeBSD \<or> target linux = Apple) \<and> (0::int) \<noteq> 0 \<and> OtherErrno 0 = EPERM
         \<longrightarrow> [] = (0, OtherErrno 0) # []) \<and>
      waitpid_replies ?w2 = [(-1, 0, EINTR)] @ (pid (rp_pid running_false), 9, OtherErrno 0) # []"
    "trace ?w2 = []"
    by (simp_all add: f quiet_def)
  have k3: "0 < (1::nat) \<and> kill_replies ?w3 = (0, OtherErrno 0) # [] \<and>
      ((target linux = FreeBSD \<or> target linux = Apple) \<and> (0::int) \<noteq> 0 \<and> OtherErrno 0 = EPERM
         \<longrightarrow> [] = (0, OtherErrno 0) # []) \<and>
      waitpid_replies ?w3 = [(-1, 0, EINTR)] @ (-1, 0, OtherErrno 10) # [] \<and>
      -1 \<noteq> pid (rp_pid running_false) \<and> OtherErrno 10 \<noteq> EINTR"
    by (simp add: f quiet_def)
  have k4: "0 < (1::nat) \<and> kill_replies ?w4 = (-1, EPERM) # [(0, OtherErrno 0)] \<and>
      ((target freebsd = FreeBSD \<or> target freebsd = Apple) \<and> (-1::int) \<noteq> 0 \<and> EPERM = EPERM
         \<longrightarrow> [(0, OtherErrno 0)] = (0, OtherErrno 0) # []) \<and>
      waitpid_replies ?w4 = [(-1, 0, EINTR)] @ (pid (rp_pid running_false), 9, OtherErrno 0) # []"
    "trace ?w4 = []"
    by (simp_all add: f quiet_def)
  have c1: "\<exists>w'. RunningProgram_wait linux describe 0 running_false ?w1
          = Some (Throws (ExecError 256 (''program '' @ quoted ''/bin/false''
                                         @ '' failed with exit code 1'')),
                  running_false\<lparr>rp_pid := (rp_pid running_false)\<lparr>pid := -1\<rparr>\<rparr>, w')
        \<and> trace w' = [Sys_waitpid 100, CheckInterrupt, Sys_waitpid 100]"
    using RunningProgram_wait_owning [where this = running_false and es = "[(-1, 0, EINTR)]"
        and w = ?w1 and irest = "[]" and status = 256 and ew = "OtherErrno 0" and rest = "[]"
        and b = linux and strsignal = describe, OF h i(1)] k1
    by (simp add: f s(1) wait_retries_def)
  have c2: "(256::int) \<noteq> 0 \<longleftrightarrow> \<not> statusOk 256"
    using RunningProgram_wait_owning [where this = running_false and es = "[(-1, 0, EINTR)]"
        and w = ?w1 and irest = "[]" and status = 256 and c = 1, OF h i(1)] s(2)
    by simp
  have c3: "\<exists>w'. RunningProgram_wait linux describe 1 running_false ?w2
          = Some (Returns (), running_false\<lparr>rp_pid := (rp_pid running_false)\<lparr>pid := -1\<rparr>\<rparr>, w')
        \<and> trace w' = [Debug ''killing process 100'', Sys_kill 100 9, Sys_waitpid 100,
                       CheckInterrupt, Sys_waitpid 100,
                       Debug ''killed subprocess /bin/false during exception handling'']"
    using RunningProgram_wait_owning [where this = running_false and es = "[(-1, 0, EINTR)]"
        and w = ?w2 and irest = "[]" and status = 9 and ew = "OtherErrno 0" and rest = "[]"
        and b = linux and strsignal = describe and uncaught = 1 and kret = 0
        and kerr = "OtherErrno 0" and ks = "[]" and pret = 0 and perr = "OtherErrno 0"
        and ks' = "[]", OF h i(2), THEN conjunct2, THEN conjunct2, THEN conjunct1] k2
    by (simp add: f ke wait_retries_def)
  have c4: "\<exists>w'. RunningProgram_wait linux describe 1 running_false ?w3
          = Some (Throws (SysError (OtherErrno 10) ''cannot get exit status of PID 100''),
                  running_false, w')"
    using RunningProgram_wait_owning [where this = running_false and es = "[(-1, 0, EINTR)]"
        and w = ?w3 and irest = "[]" and status = 0 and err = "OtherErrno 10" and rest = "[]"
        and res = "-1"
        and b = linux and strsignal = describe and uncaught = 1 and kret = 0
        and kerr = "OtherErrno 0" and ks = "[]" and pret = 0 and perr = "OtherErrno 0"
        and ks' = "[]", OF h i(3), THEN conjunct2, THEN conjunct2, THEN conjunct2] k3
    by (simp add: f)
  have c5: "\<exists>w'. RunningProgram_wait freebsd describe 1 running_false ?w4
          = Some (Returns (), running_false\<lparr>rp_pid := (rp_pid running_false)\<lparr>pid := -1\<rparr>\<rparr>, w')
        \<and> trace w' = [Debug ''killing process 100'', Sys_kill 100 9, Sys_kill 100 0,
                       Sys_waitpid 100, CheckInterrupt, Sys_waitpid 100,
                       Debug ''killed subprocess /bin/false during exception handling'']"
    using RunningProgram_wait_owning [where this = running_false and es = "[(-1, 0, EINTR)]"
        and w = ?w4 and irest = "[]" and status = 9 and ew = "OtherErrno 0" and rest = "[]"
        and b = freebsd and strsignal = describe and uncaught = 1 and kret = "-1"
        and kerr = EPERM and ks = "[(0, OtherErrno 0)]" and pret = 0 and perr = "OtherErrno 0"
        and ks' = "[]", OF h i(4), THEN conjunct2, THEN conjunct2, THEN conjunct1] k4
    by (simp add: f ke wait_retries_def)
  show ?thesis
    using h c1 c2 c3 c5 c4 by blast
qed

text \<open>
  Claim C2, as stated, fails. \<open>wait\<close> is called while an exception is propagating; the
  signal is delivered, and the wait for the killed process fails (here with \<open>errno\<close> 10,
  no such child): \<open>wait\<close> throws the \<open>SysError\<close> of the handle, a new error, and the handle
  still owns the process.
\<close>

theorem RunningProgram_wait_raises_while_unwinding:
  "wait_view (RunningProgram_wait linux describe 1 running_false
       (quiet\<lparr>kill_replies := [(0, OtherErrno 0)],
              waitpid_replies := [(-1, 0, OtherErrno 10)]\<rparr>))
     = Some (Throws (SysError (OtherErrno 10) ''cannot get exit status of PID 100''),
             100, [Debug ''killing process 100'', Sys_kill 100 9, Sys_waitpid 100])"
  by (simp add: wait_view_def RunningProgram_wait_def Pid_kill_def sys_kill_def Pid_wait_def
        running_false_def RunningProgram_new_def Pid_of_def Pid_default_def
        quiet_def emit_def SIGKILL_def show_int_def show_nat.simps digit_def)

section \<open>RunningProgram: destruction\<close>

lemma wait_loop_throws:
  "wait_loop this rs w = Some (Throws e, this', w') \<Longrightarrow>
     (\<exists>err msg. e = SysError err msg) \<or> e = Interrupted"
proof (induction rs arbitrary: w)
  case Nil
  then show ?case by simp
next
  case (Cons r rs)
  obtain res st err where r: "r = (res, st, err)" by (cases r)
  from Cons.prems show ?case
    by (auto simp: r Let_def checkInterrupt_def
          split: if_splits option.splits list.splits dest: Cons.IH)
qed

lemma Pid_wait_throws:
  "Pid_wait p w = Some (Throws e, p', w') \<Longrightarrow>
     (\<exists>err msg. e = SysError err msg) \<or> e = Interrupted"
  by (auto simp: Pid_wait_def split: if_splits dest: wait_loop_throws)

lemma Pid_kill_throws:
  "Pid_kill b p w = Some (Throws e, p', w') \<Longrightarrow>
     (\<exists>err msg. e = SysError err msg) \<or> e = Interrupted"
  by (auto simp: Pid_kill_def Let_def split: if_splits option.splits prod.splits
        dest: Pid_wait_throws)

lemma RunningProgram_wait_empties:
  assumes "RunningProgram_wait b strsignal uncaught this w = Some (r, this', w')"
    and "r = Returns () \<or> (\<exists>status msg. r = Throws (ExecError status msg))"
  shows "\<not> Pid_bool (rp_pid this')"
proof (cases "uncaught = 0")
  case True
  with assms show ?thesis
    by (auto simp: RunningProgram_wait_def Pid_bool_def
          split: option.splits prod.splits outcome.splits if_splits
          dest: Pid_wait_handle Pid_wait_throws)
next
  case False
  with assms show ?thesis
    by (auto simp: RunningProgram_wait_def Pid_bool_def
          split: option.splits prod.splits outcome.splits if_splits
          dest: Pid_kill_handle Pid_kill_throws)
qed

lemma RunningProgram_dtor_empty:
  "\<not> Pid_bool (rp_pid this) \<Longrightarrow> RunningProgram_dtor b this w = Some (Returns (), this, w)"
  by (simp add: RunningProgram_dtor_def Pid_dtor_def Pid_bool_def)

text \<open>
  Claim C7. Destroying a \<open>RunningProgram\<close> whose handle still owns a process ends the
  running process there: the outcome is neither a return nor an exception, and nothing is
  done to the child (the world is unchanged: no signal, no wait). In the source the
  assertion, which always fails, stands right before \<open>std::terminate()\<close>, so it is the
  assertion that ends the process. A \<open>RunningProgram\<close> whose handle is empty is destroyed
  normally, and the handle is empty after a \<open>wait\<close> that returned or threw the
  \<open>ExecError\<close>.
\<close>

theorem RunningProgram_dtor_unwaited:
  "(Pid_bool (rp_pid this) \<longrightarrow>
      RunningProgram_dtor b this w
        = Some (Halts (AssertionFailed ''destroying un-wait()ed running process''), this, w)) \<and>
   (\<not> Pid_bool (rp_pid this) \<longrightarrow> RunningProgram_dtor b this w = Some (Returns (), this, w)) \<and>
   (RunningProgram_wait b strsignal uncaught this w = Some (r, this', w') \<and>
    (r = Returns () \<or> (\<exists>status msg. r = Throws (ExecError status msg))) \<longrightarrow>
      RunningProgram_dtor b this' w' = Some (Returns (), this', w'))"
proof (intro conjI impI)
  assume "Pid_bool (rp_pid this)"
  then show "RunningProgram_dtor b this w
        = Some (Halts (AssertionFailed ''destroying un-wait()ed running process''), this, w)"
    by (simp add: RunningProgram_dtor_def)
next
  assume "\<not> Pid_bool (rp_pid this)"
  then show "RunningProgram_dtor b this w = Some (Returns (), this, w)"
    by (rule RunningProgram_dtor_empty)
next
  assume h: "RunningProgram_wait b strsignal uncaught this w = Some (r, this', w') \<and>
    (r = Returns () \<or> (\<exists>status msg. r = Throws (ExecError status msg)))"
  then have "\<not> Pid_bool (rp_pid this')"
    using RunningProgram_wait_empties [of b strsignal uncaught this w r this' w'] by blast
  then show "RunningProgram_dtor b this' w' = Some (Returns (), this', w')"
    by (rule RunningProgram_dtor_empty)
qed

theorem RunningProgram_dtor_unwaited_witness:
  "Pid_bool (rp_pid running_false) \<and>
   RunningProgram_dtor linux running_false quiet
     = Some (Halts (AssertionFailed ''destroying un-wait()ed running process''),
             running_false, quiet) \<and>
   \<not> Pid_bool (rp_pid (running_false\<lparr>rp_pid := (rp_pid running_false)\<lparr>pid := -1\<rparr>\<rparr>)) \<and>
   RunningProgram_wait linux describe 0 running_false
       (quiet\<lparr>waitpid_replies := [(100, 0, OtherErrno 0)]\<rparr>)
     = Some (Returns (), running_false\<lparr>rp_pid := (rp_pid running_false)\<lparr>pid := -1\<rparr>\<rparr>,
             quiet\<lparr>trace := [Sys_waitpid 100]\<rparr>) \<and>
   RunningProgram_dtor linux (running_false\<lparr>rp_pid := (rp_pid running_false)\<lparr>pid := -1\<rparr>\<rparr>)
       (quiet\<lparr>trace := [Sys_waitpid 100]\<rparr>)
     = Some (Returns (), running_false\<lparr>rp_pid := (rp_pid running_false)\<lparr>pid := -1\<rparr>\<rparr>,
             quiet\<lparr>trace := [Sys_waitpid 100]\<rparr>)"
proof -
  let ?w = "quiet\<lparr>waitpid_replies := [(100, 0, OtherErrno 0)]\<rparr>"
  let ?rp = "running_false\<lparr>rp_pid := (rp_pid running_false)\<lparr>pid := -1\<rparr>\<rparr>"
  let ?w' = "quiet\<lparr>trace := [Sys_waitpid 100]\<rparr>"
  have h: "Pid_bool (rp_pid running_false)" "\<not> Pid_bool (rp_pid ?rp)"
    by (simp_all add: Pid_bool_def running_false_def RunningProgram_new_def Pid_of_def)
  have e: "RunningProgram_wait linux describe 0 running_false ?w = Some (Returns (), ?rp, ?w')"
    by (simp add: RunningProgram_wait_def Pid_wait_def running_false_def RunningProgram_new_def
          Pid_of_def Pid_default_def quiet_def emit_def)
  note t = RunningProgram_dtor_unwaited [where this = running_false and b = linux
      and strsignal = describe and uncaught = 0 and r = "Returns ()" and this' = ?rp
      and w = ?w and w' = ?w']
  note u = RunningProgram_dtor_unwaited [where this = running_false and b = linux and w = quiet]
  from u h(1) have c1: "RunningProgram_dtor linux running_false quiet
     = Some (Halts (AssertionFailed ''destroying un-wait()ed running process''),
             running_false, quiet)"
    by blast
  from t e have c2: "RunningProgram_dtor linux ?rp ?w' = Some (Returns (), ?rp, ?w')"
    by blast
  show ?thesis
    using h e c1 c2 by blast
qed

section \<open>ProcessSpawner: the wrapper; killUser with uid 0\<close>

lemma wrapper_try_reaches_fun:
  "prctl_ok b options w \<Longrightarrow>
     wrapper_try b options proc (emit MakeSimpleLogger w) = proc (child_start b options w)"
  by (auto simp: prctl_ok_def wrapper_try_def child_start_def syscall_def emit_def Let_def
        split: list.splits)


lemma wrapper_never_returns:
  "wrapper b what options proc w = Some (x, w') \<Longrightarrow> \<exists>h. x = Halts h"
  by (auto simp: wrapper_def wrapper_exit_def
        split: option.splits prod.splits outcome.splits if_splits)

lemma cerr_insert_all:
  "stderr_replies w = n # ns \<Longrightarrow> 3 \<le> n \<Longrightarrow>
     cerr_insert [a, m, c] w
       = Some (w\<lparr>stderr_replies := ns, trace := trace w @ [WriteStderr a, WriteStderr m, WriteStderr c]\<rparr>)"
  by (simp add: cerr_insert_def emit_def)

text \<open>
  Claim C8, as amended. The wrapper never returns and never lets an exception out:
  whatever it does ends the child. When the child procedure is reached (the death signal need not be set or
  could be set) and returns normally, the child ends with status 1. When the procedure
  throws an exception derived from \<open>std::exception\<close>, the prefix, the message and a newline
  are inserted into the standard error, as far as the insertions succeed (all three when
  none fails), a failing insertion is swallowed, and the child ends with status 1. When it
  throws any other object, nothing is written and the child ends with status 1. The
  status 1 is given by \<open>exit\<close> when \<open>runExitHandlers\<close> is set and by \<open>_exit\<close> otherwise.
\<close>

theorem wrapper_ends_child:
  "(wrapper b what options proc w = Some (x, w') \<longrightarrow> (\<exists>h. x = Halts h)) \<and>
   exit_1 options = (if runExitHandlers options then Exited 1 else QuickExited 1) \<and>
   (prctl_ok b options w \<and> proc (child_start b options w) = Some (Returns (), wt) \<longrightarrow>
      wrapper b what options proc w = Some (Halts (exit_1 options), wt)) \<and>
   (prctl_ok b options w \<and> proc (child_start b options w) = Some (Throws e, wt) \<and>
    is_std_exception e \<and> stderr_replies wt = n # ns \<longrightarrow>
      wrapper b what options proc w
        = Some (Halts (exit_1 options),
                fold (\<lambda>s. emit (WriteStderr s))
                  (take n [errorPrefix options, what e, [CHR 0x0A]])
                  (wt\<lparr>stderr_replies := ns\<rparr>))) \<and>
   (prctl_ok b options w \<and> proc (child_start b options w) = Some (Throws e, wt) \<and>
    is_std_exception e \<and> stderr_replies wt = n # ns \<and> 3 \<le> n \<longrightarrow>
      wrapper b what options proc w
        = Some (Halts (exit_1 options),
                wt\<lparr>stderr_replies := ns,
                    trace := trace wt @ [WriteStderr (errorPrefix options), WriteStderr (what e),
                                         WriteStderr [CHR 0x0A]]\<rparr>)) \<and>
   (prctl_ok b options w \<and> proc (child_start b options w) = Some (Throws e, wt) \<and>
    \<not> is_std_exception e \<longrightarrow>
      wrapper b what options proc w = Some (Halts (exit_1 options), wt))"
proof (intro conjI impI)
  assume "wrapper b what options proc w = Some (x, w')"
  then show "\<exists>h. x = Halts h" by (rule wrapper_never_returns)
next
  show "exit_1 options = (if runExitHandlers options then Exited 1 else QuickExited 1)"
    by (simp add: exit_1_def)
next
  assume "prctl_ok b options w \<and> proc (child_start b options w) = Some (Returns (), wt)"
  then show "wrapper b what options proc w = Some (Halts (exit_1 options), wt)"
    by (simp add: wrapper_def wrapper_try_reaches_fun wrapper_exit_def exit_1_def)
next
  assume "prctl_ok b options w \<and> proc (child_start b options w) = Some (Throws e, wt) \<and>
    is_std_exception e \<and> stderr_replies wt = n # ns"
  then show "wrapper b what options proc w
        = Some (Halts (exit_1 options),
                fold (\<lambda>s. emit (WriteStderr s))
                  (take n [errorPrefix options, what e, [CHR 0x0A]])
                  (wt\<lparr>stderr_replies := ns\<rparr>))"
    by (simp add: wrapper_def wrapper_try_reaches_fun wrapper_exit_def exit_1_def cerr_insert_def)
next
  assume "prctl_ok b options w \<and> proc (child_start b options w) = Some (Throws e, wt) \<and>
    is_std_exception e \<and> stderr_replies wt = n # ns \<and> 3 \<le> n"
  then show "wrapper b what options proc w
        = Some (Halts (exit_1 options),
                wt\<lparr>stderr_replies := ns,
                    trace := trace wt @ [WriteStderr (errorPrefix options), WriteStderr (what e),
                                         WriteStderr [CHR 0x0A]]\<rparr>)"
    by (simp add: wrapper_def wrapper_try_reaches_fun wrapper_exit_def exit_1_def cerr_insert_all)
next
  assume "prctl_ok b options w \<and> proc (child_start b options w) = Some (Throws e, wt) \<and>
    \<not> is_std_exception e"
  then show "wrapper b what options proc w = Some (Halts (exit_1 options), wt)"
    by (simp add: wrapper_def wrapper_try_reaches_fun wrapper_exit_def exit_1_def)
qed

text \<open>
  Claim C6. \<open>killUser\<close> with the uid 0 stops at its assertion, after the debug message
  only: nothing is forked and no signal is sent.
\<close>

theorem killUser_root:
  "killUser b what strsignal 0 w
     = Some (Halts (AssertionFailed ''uid != 0''),
             w\<lparr>trace := trace w @ [Debug (''killing all processes running under uid ''
                                            @ quoted ''0'')]\<rparr>)"
  by (simp add: killUser_def emit_def show_nat.simps digit_def)

theorem wrapper_ends_child_witness:
  "prctl_ok linux prefixed (quiet\<lparr>syscall_replies := [(0, OtherErrno 0)], stderr_replies := [3]\<rparr>) \<and>
   wrapper linux message prefixed returning
       (quiet\<lparr>syscall_replies := [(0, OtherErrno 0)], stderr_replies := [3]\<rparr>)
     = Some (Halts (QuickExited 1),
             quiet\<lparr>stderr_replies := [3], trace := [MakeSimpleLogger, Sys_prctl_pdeathsig 9]\<rparr>) \<and>
   wrapper linux message (prefixed\<lparr>runExitHandlers := True\<rparr>) returning
       (quiet\<lparr>syscall_replies := [(0, OtherErrno 0)], stderr_replies := [3]\<rparr>)
     = Some (Halts (Exited 1),
             quiet\<lparr>stderr_replies := [3], trace := [MakeSimpleLogger, Sys_prctl_pdeathsig 9]\<rparr>) \<and>
   wrapper linux message prefixed throwing
       (quiet\<lparr>syscall_replies := [(0, OtherErrno 0)], stderr_replies := [3]\<rparr>)
     = Some (Halts (QuickExited 1),
             quiet\<lparr>trace := [MakeSimpleLogger, Sys_prctl_pdeathsig 9, WriteStderr ''error: '',
                              WriteStderr ''setting uid'', WriteStderr [CHR 0x0A]]\<rparr>) \<and>
   wrapper linux message prefixed throwing
       (quiet\<lparr>syscall_replies := [(0, OtherErrno 0)], stderr_replies := [1]\<rparr>)
     = Some (Halts (QuickExited 1),
             quiet\<lparr>trace := [MakeSimpleLogger, Sys_prctl_pdeathsig 9, WriteStderr ''error: '']\<rparr>) \<and>
   wrapper linux message prefixed throwing_other
       (quiet\<lparr>syscall_replies := [(0, OtherErrno 0)], stderr_replies := [3]\<rparr>)
     = Some (Halts (QuickExited 1),
             quiet\<lparr>stderr_replies := [3], trace := [MakeSimpleLogger, Sys_prctl_pdeathsig 9]\<rparr>)"
proof -
  let ?w3 = "quiet\<lparr>syscall_replies := [(0, OtherErrno 0)], stderr_replies := [3]\<rparr>"
  let ?w1 = "quiet\<lparr>syscall_replies := [(0, OtherErrno 0)], stderr_replies := [1]\<rparr>"
  let ?s3 = "quiet\<lparr>stderr_replies := [3], trace := [MakeSimpleLogger, Sys_prctl_pdeathsig 9]\<rparr>"
  let ?s1 = "quiet\<lparr>stderr_replies := [1], trace := [MakeSimpleLogger, Sys_prctl_pdeathsig 9]\<rparr>"
  let ?px = "prefixed\<lparr>runExitHandlers := True\<rparr>"
  have ok: "prctl_ok linux prefixed ?w3" "prctl_ok linux prefixed ?w1" "prctl_ok linux ?px ?w3"
    by (simp_all add: prctl_ok_def quiet_def)
  have st: "child_start linux prefixed ?w3 = ?s3" "child_start linux prefixed ?w1 = ?s1"
    "child_start linux ?px ?w3 = ?s3"
    by (simp_all add: child_start_def linux_def prefixed_def ProcessOptions_default_def
          quiet_def emit_def SIGKILL_def)
  have ex: "exit_1 prefixed = QuickExited 1" "exit_1 ?px = Exited 1"
    using wrapper_ends_child [where options = prefixed]
      wrapper_ends_child [where options = ?px]
    by (simp_all add: prefixed_def ProcessOptions_default_def)
  have c1: "wrapper linux message prefixed returning ?w3 = Some (Halts (QuickExited 1), ?s3)"
    using wrapper_ends_child [where b = linux and what = message and options = prefixed
        and proc = returning and w = ?w3 and wt = ?s3]
    by (simp add: ok st returning_def ex)
  have c2: "wrapper linux message ?px returning ?w3 = Some (Halts (Exited 1), ?s3)"
    using wrapper_ends_child [where b = linux and what = message and options = ?px
        and proc = returning and w = ?w3 and wt = ?s3]
    by (simp add: ok st returning_def ex)
  have pf: "errorPrefix prefixed = ''error: ''"
    by (simp add: prefixed_def)
  have sr: "stderr_replies ?s3 = 3 # []" "stderr_replies ?s1 = 1 # []"
    by (simp_all add: quiet_def)
  have r3: "?s3\<lparr>stderr_replies := [],
               trace := trace ?s3 @ [WriteStderr ''error: '', WriteStderr ''setting uid'',
                                     WriteStderr [CHR 0x0A]]\<rparr>
      = quiet\<lparr>trace := [MakeSimpleLogger, Sys_prctl_pdeathsig 9, WriteStderr ''error: '',
                              WriteStderr ''setting uid'', WriteStderr [CHR 0x0A]]\<rparr>"
    by (simp add: quiet_def)
  have r1: "fold (\<lambda>s. emit (WriteStderr s)) (take 1 [''error: '', ''setting uid'', [CHR 0x0A]])
              (?s1\<lparr>stderr_replies := []\<rparr>)
      = quiet\<lparr>trace := [MakeSimpleLogger, Sys_prctl_pdeathsig 9, WriteStderr ''error: '']\<rparr>"
    by (simp add: quiet_def emit_def)
  have c3: "wrapper linux message prefixed throwing ?w3
     = Some (Halts (QuickExited 1),
             quiet\<lparr>trace := [MakeSimpleLogger, Sys_prctl_pdeathsig 9, WriteStderr ''error: '',
                              WriteStderr ''setting uid'', WriteStderr [CHR 0x0A]]\<rparr>)"
    using wrapper_ends_child [where b = linux and what = message and options = prefixed
        and proc = throwing and w = ?w3 and wt = ?s3
        and e = "SysError EPERM ''setting uid''" and n = 3 and ns = "[]",
        THEN conjunct2, THEN conjunct2, THEN conjunct2, THEN conjunct2, THEN conjunct1]
    by (simp only: ok st throwing_def ex pf sr r3 message.simps is_std_exception.simps simp_thms
          order_refl)
  have c4: "wrapper linux message prefixed throwing ?w1
     = Some (Halts (QuickExited 1),
             quiet\<lparr>trace := [MakeSimpleLogger, Sys_prctl_pdeathsig 9, WriteStderr ''error: '']\<rparr>)"
    using wrapper_ends_child [where b = linux and what = message and options = prefixed
        and proc = throwing and w = ?w1 and wt = ?s1
        and e = "SysError EPERM ''setting uid''" and n = 1 and ns = "[]",
        THEN conjunct2, THEN conjunct2, THEN conjunct2, THEN conjunct1]
    by (simp only: ok st throwing_def ex pf sr r1 message.simps is_std_exception.simps simp_thms)
  have c5: "wrapper linux message prefixed throwing_other ?w3 = Some (Halts (QuickExited 1), ?s3)"
    using wrapper_ends_child [where b = linux and what = message and options = prefixed
        and proc = throwing_other and w = ?w3 and wt = ?s3 and e = NonStdException]
    by (simp add: ok st throwing_other_def ex)
  show ?thesis
    using ok(1) c1 c2 c3 c4 c5 by blast
qed

text \<open>
  Claim C8, as stated, fails. The child procedure throws an object that is not derived
  from \<open>std::exception\<close>; every insertion into the standard error would succeed, but the
  handler for such objects is empty: no diagnostic is written, and the child ends with
  status 1.
\<close>

theorem wrapper_writes_nothing_for_other_objects:
  "outcome_view (wrapper linux message prefixed throwing_other
       (quiet\<lparr>syscall_replies := [(0, OtherErrno 0)], stderr_replies := [3]\<rparr>))
     = Some (Halts (QuickExited 1), [MakeSimpleLogger, Sys_prctl_pdeathsig 9], [])"
  by (simp add: outcome_view_def wrapper_def wrapper_try_def wrapper_exit_def syscall_def
        throwing_other_def linux_def prefixed_def ProcessOptions_default_def quiet_def emit_def
        SIGKILL_def)

section \<open>UserProcessReaper: the helper and the parent\<close>












section \<open>ProgramRunner: the pair-returning runProgram\<close>









end
